theory Spec2Isabelle
  imports Main "HOL-Library.AList"
begin

section \<open>Python values, exceptions and exception-info descriptors\<close>

text \<open>
  The module \<^verbatim>\<open>Lib/concurrent/futures/interpreter.py\<close> drives one isolated
  interpreter per worker.  Its own code is embedded below function by function.  The
  objects it handles are Python values; the model keeps the ones the code inspects
  (\<^verbatim>\<open>None\<close>, strings, bytes, tuples, dicts) and one constructor for every other
  object, named by its qualified name (a function, for instance).
\<close>

datatype pyval =
    PNone
  | PBool bool
  | PInt int
  | PStr string
  | PBytes string
  | PTuple "pyval list"
  | PDict "(pyval \<times> pyval) list"
  | PObj string

text \<open>Truth value testing, as \<^verbatim>\<open>if x:\<close> and \<^verbatim>\<open>x or y\<close> perform it.\<close>

fun truthy :: "pyval \<Rightarrow> bool" where
  "truthy PNone = False"
| "truthy (PBool b) = b"
| "truthy (PInt n) = (n \<noteq> 0)"
| "truthy (PStr s) = (s \<noteq> [])"
| "truthy (PBytes s) = (s \<noteq> [])"
| "truthy (PTuple xs) = (xs \<noteq> [])"
| "truthy (PDict kvs) = (kvs \<noteq> [])"
| "truthy (PObj n) = True"

definition py_or :: "pyval \<Rightarrow> pyval \<Rightarrow> pyval" where
  "py_or a b = (if truthy a then a else b)"

fun is_str :: "pyval \<Rightarrow> bool" where
  "is_str (PStr s) = True"
| "is_str v = False"

text \<open>
  The exception-info descriptor \<^verbatim>\<open>_interpreters.exec\<close> returns for an uncaught
  exception.  \<open>formatted\<close> and \<open>exc_msg\<close> are \<^verbatim>\<open>None\<close> or a string;
  \<open>exc_type\<close> is \<^verbatim>\<open>None\<close> or a type object, kept as its \<^verbatim>\<open>__name__\<close>;
  \<open>errdisplay\<close> is \<open>None\<close> when reading the attribute raises.
\<close>

record excinfo =
  formatted :: "string option"
  exc_type :: "string option"
  exc_msg :: "string option"
  errdisplay :: "string option"

text \<open>
  An exception object: the names of its class and of the classes it inherits from
  (\<^verbatim>\<open>except C\<close> matches when \<open>C\<close> is among them), its \<^verbatim>\<open>args\<close>, the
  \<^verbatim>\<open>excinfo\<close> attribute \<^verbatim>\<open>ExecutionFailed\<close> adds, and \<^verbatim>\<open>__cause__\<close>.
\<close>

datatype exn =
  Exn (exn_mro: "string list") (exn_args: "pyval list")
      (exn_excinfo: "excinfo option") (exn_cause: "exn option")

definition isinstance :: "exn \<Rightarrow> string \<Rightarrow> bool" where
  "isinstance e c = (c \<in> set (exn_mro e))"

definition TypeError :: "string \<Rightarrow> exn" where
  "TypeError m = Exn [''TypeError'', ''Exception'', ''BaseException''] [PStr m] None None"

definition ValueError :: "string \<Rightarrow> exn" where
  "ValueError m = Exn [''ValueError'', ''Exception'', ''BaseException''] [PStr m] None None"

definition AttributeError :: "string \<Rightarrow> exn" where
  "AttributeError m =
     Exn [''AttributeError'', ''Exception'', ''BaseException''] [PStr m] None None"

definition AssertionError :: "pyval list \<Rightarrow> exn" where
  "AssertionError args =
     Exn [''AssertionError'', ''Exception'', ''BaseException''] args None None"

text \<open>\<^verbatim>\<open>raise exc from cause\<close> sets \<^verbatim>\<open>__cause__\<close> of the exception raised.\<close>

definition raise_from :: "exn \<Rightarrow> exn \<Rightarrow> exn" where
  "raise_from exc c = Exn (exn_mro exc) (exn_args exc) (exn_excinfo exc) (Some c)"

subsection \<open>ExecutionFailed\<close>

definition str_truthy :: "string option \<Rightarrow> bool" where
  "str_truthy s = (case s of None \<Rightarrow> False | Some t \<Rightarrow> t \<noteq> [])"

definition opt_val :: "string option \<Rightarrow> pyval" where
  "opt_val s = (case s of None \<Rightarrow> PNone | Some t \<Rightarrow> PStr t)"

text \<open>
  \<^verbatim>\<open>super().__init__(msg); self.excinfo = excinfo\<close> for the class
  \<^verbatim>\<open>ExecutionFailed(_interpreters.InterpreterError)\<close>.
\<close>

definition ExecutionFailed_new :: "string option \<Rightarrow> excinfo \<Rightarrow> exn" where
  "ExecutionFailed_new m xi =
     Exn [''ExecutionFailed'', ''InterpreterError'', ''Exception'', ''BaseException'']
         [opt_val m] (Some xi) None"

text \<open>
  \<^verbatim>\<open>ExecutionFailed.__init__\<close>.  Reading \<^verbatim>\<open>excinfo.type.__name__\<close> when
  \<^verbatim>\<open>excinfo.type\<close> is \<^verbatim>\<open>None\<close> raises \<^verbatim>\<open>AttributeError\<close>.
\<close>

definition ExecutionFailed_init :: "excinfo \<Rightarrow> exn + exn" where
  "ExecutionFailed_init xi =
     (if str_truthy (formatted xi) then Inr (ExecutionFailed_new (formatted xi) xi)
      else
        (case exc_type xi of
           None \<Rightarrow> Inl (AttributeError ''__name__'')
         | Some n \<Rightarrow>
             (if str_truthy (exc_msg xi)
              then Inr (ExecutionFailed_new
                          (Some (n @ '': '' @ (case exc_msg xi of Some m \<Rightarrow> m | None \<Rightarrow> [])))
                          xi)
              else Inr (ExecutionFailed_new (if n \<noteq> [] then Some n else exc_msg xi) xi))))"


section \<open>The services the module calls\<close>

type_synonym bytes = string
type_synonym interp_id = nat
type_synonym queue_id = nat
type_synonym task = "pyval \<times> pyval \<times> pyval"

text \<open>
  A result envelope, the tuple \<^verbatim>\<open>(res, exc)\<close> put on the results queue, and the
  object \<^verbatim>\<open>_interpqueues.get\<close> returns: the envelope and \<^verbatim>\<open>unboundop\<close>.
\<close>

type_synonym envelope = "pyval \<times> exn option"
type_synonym queue_obj = "envelope \<times> int option"

text \<open>
  The functions of \<^verbatim>\<open>pickle\<close>, \<^verbatim>\<open>textwrap\<close>, \<^verbatim>\<open>_interpreters\<close> and
  \<^verbatim>\<open>_interpqueues\<close> are not part of the module: they are parameters of the model,
  collected in one record.  \<open>'w\<close> is the state of everything outside the worker
  context (runtimes, queues, the namespaces of the interpreters); a function that can
  raise returns the exception as \<open>Inl\<close>, together with the state it leaves.

  \<open>interp_enter\<close> and \<open>interp_leave\<close> switch into and out of a runtime,
  \<open>interp_import\<close> is the bootstrap import run inside it, \<open>call_fn\<close> is the call of a
  Python callable inside it and \<open>exc_snapshot\<close> builds the exception-info descriptor of
  an uncaught exception.
\<close>

record 'w host =
  pickle_dumps :: "task \<Rightarrow> exn + bytes"
  pickle_loads :: "bytes \<Rightarrow> exn + task"
  py_repr :: "pyval \<Rightarrow> string"
  str_strip :: "string \<Rightarrow> string"
  textwrap_dedent :: "string \<Rightarrow> string"
  interp_create :: "bool \<Rightarrow> 'w \<Rightarrow> (exn + interp_id) \<times> 'w"
  interp_incref :: "interp_id \<Rightarrow> 'w \<Rightarrow> (exn + unit) \<times> 'w"
  interp_decref :: "interp_id \<Rightarrow> 'w \<Rightarrow> (exn + unit) \<times> 'w"
  interp_enter :: "interp_id \<Rightarrow> bool \<Rightarrow> 'w \<Rightarrow> (exn + unit) \<times> 'w"
  interp_leave :: "interp_id \<Rightarrow> 'w \<Rightarrow> 'w"
  interp_import :: "string \<Rightarrow> 'w \<Rightarrow> (exn + unit) \<times> 'w"
  interp_set_main_attrs ::
    "interp_id \<Rightarrow> (string \<times> pyval) list \<Rightarrow> bool \<Rightarrow> 'w \<Rightarrow> (exn + unit) \<times> 'w"
  call_fn :: "pyval \<Rightarrow> pyval \<Rightarrow> pyval \<Rightarrow> 'w \<Rightarrow> (exn + pyval) \<times> 'w"
  exc_snapshot :: "exn \<Rightarrow> excinfo"
  queue_create :: "nat \<Rightarrow> 'w \<Rightarrow> (exn + queue_id) \<times> 'w"
  queue_put :: "queue_id \<Rightarrow> envelope \<Rightarrow> 'w \<Rightarrow> (exn + unit) \<times> 'w"
  queue_get :: "queue_id \<Rightarrow> 'w \<Rightarrow> (exn + queue_obj) \<times> 'w"
  queue_destroy :: "queue_id \<Rightarrow> 'w \<Rightarrow> (exn + unit) \<times> 'w"

text \<open>
  The queue functions called with the stored handle, which is \<^verbatim>\<open>None\<close> or an
  identifier; \<^verbatim>\<open>None\<close> is not a queue identifier and raises \<^verbatim>\<open>TypeError\<close>.
\<close>

definition put :: "'w host \<Rightarrow> queue_id option \<Rightarrow> envelope \<Rightarrow> 'w \<Rightarrow> (exn + unit) \<times> 'w" where
  "put H rid env w =
     (case rid of
        None \<Rightarrow> (Inl (TypeError ''an integer is required''), w)
      | Some q \<Rightarrow> queue_put H q env w)"

definition get :: "'w host \<Rightarrow> queue_id option \<Rightarrow> 'w \<Rightarrow> (exn + queue_obj) \<times> 'w" where
  "get H rid w =
     (case rid of
        None \<Rightarrow> (Inl (TypeError ''an integer is required''), w)
      | Some q \<Rightarrow> queue_get H q w)"

subsection \<open>ExecutionFailed.__str__\<close>

definition newline :: string where
  "newline = [CHR 0x0A]"

text \<open>\<^verbatim>\<open>BaseException.__str__\<close> of an exception built with one string or \<^verbatim>\<open>None\<close>.\<close>

definition BaseException_str :: "'w host \<Rightarrow> exn \<Rightarrow> string" where
  "BaseException_str H e =
     (case exn_args e of
        [] \<Rightarrow> []
      | [PStr s] \<Rightarrow> s
      | [PNone] \<Rightarrow> ''None''
      | [v] \<Rightarrow> py_repr H v
      | vs \<Rightarrow> py_repr H (PTuple vs))"

text \<open>Reading \<^verbatim>\<open>self.excinfo.errdisplay\<close>.\<close>

definition get_errdisplay :: "exn \<Rightarrow> exn + string" where
  "get_errdisplay self =
     (case exn_excinfo self of
        None \<Rightarrow> Inl (AttributeError ''excinfo'')
      | Some xi \<Rightarrow>
          (case errdisplay xi of
             None \<Rightarrow> Inl (AttributeError ''errdisplay'')
           | Some d \<Rightarrow> Inr d))"

definition ExecutionFailed_str :: "'w host \<Rightarrow> exn \<Rightarrow> exn + string" where
  "ExecutionFailed_str H self =
     (case get_errdisplay self of
        Inl e \<Rightarrow>
          (if isinstance e ''Exception'' then Inr (BaseException_str H self) else Inl e)
      | Inr fm \<Rightarrow>
          Inr (textwrap_dedent H (str_strip H
                 (newline @ BaseException_str H self @ newline @ newline
                  @ ''Uncaught in the interpreter:'' @ newline @ newline
                  @ fm @ newline @ ''                ''))))"

section \<open>WorkerContext\<close>

subsection \<open>The task encoder and prepare\<close>

text \<open>The function \<^verbatim>\<open>resolve_task\<close> defined in \<^verbatim>\<open>prepare\<close>: the task encoder.\<close>

definition resolve_task :: "'w host \<Rightarrow> pyval \<Rightarrow> pyval \<Rightarrow> pyval \<Rightarrow> exn + bytes" where
  "resolve_task H fn args kwargs =
     (if is_str fn then Inl (TypeError ''scripts not supported'')
      else pickle_dumps H (fn, args, kwargs))"

type_synonym addr = nat

text \<open>
  \<^verbatim>\<open>prepare\<close> returns the closure \<^verbatim>\<open>create_context\<close> and \<^verbatim>\<open>resolve_task\<close>.
  The closure is kept as the two variables it captures, \<^verbatim>\<open>initdata\<close> and
  \<^verbatim>\<open>shared\<close> (\<^verbatim>\<open>None\<close> or a reference to the caller's mapping).
\<close>

definition prepare ::
  "'w host \<Rightarrow> pyval \<Rightarrow> pyval \<Rightarrow> addr option \<Rightarrow> exn + (bytes option \<times> addr option)" where
  "prepare H initializer initargs shared =
     (if initializer \<noteq> PNone then
        (case resolve_task H initializer initargs (PDict []) of
           Inl e \<Rightarrow>
             (if isinstance e ''ValueError'' then
                (if is_str initializer \<and> truthy initargs
                 then Inl (ValueError (''an initializer script does not take args, got ''
                                        @ py_repr H initargs))
                 else Inl e)
              else Inl e)
         | Inr initdata \<Rightarrow> Inr (Some initdata, shared))
      else Inr (None, shared))"

text \<open>\<^verbatim>\<open>InterpreterPoolExecutor.prepare_context\<close>.\<close>

definition prepare_context ::
  "'w host \<Rightarrow> pyval \<Rightarrow> pyval \<Rightarrow> addr option \<Rightarrow> exn + (bytes option \<times> addr option)" where
  "prepare_context H initializer initargs shared = prepare H initializer initargs shared"

subsection \<open>The isolated side: capturing exceptions and calling the task\<close>

text \<open>
  \<^verbatim>\<open>with cls._capture_exc(resultsid): body\<close>.  An exception of the body is put on
  the results queue as \<^verbatim>\<open>(None, exc)\<close> and raised again; when the put itself
  raises, that exception leaves the handler instead.
\<close>

definition capture_exc ::
  "'w host \<Rightarrow> queue_id option \<Rightarrow> ('w \<Rightarrow> (exn + 'a) \<times> 'w) \<Rightarrow> 'w \<Rightarrow> (exn + 'a) \<times> 'w" where
  "capture_exc H resultsid body w =
     (case body w of
        (Inr x, w1) \<Rightarrow> (Inr x, w1)
      | (Inl exc, w1) \<Rightarrow>
          (case put H resultsid (PNone, Some exc) w1 of
             (Inl e2, w2) \<Rightarrow> (Inl e2, w2)
           | (Inr u, w2) \<Rightarrow> (Inl exc, w2)))"

text \<open>\<^verbatim>\<open>WorkerContext._send_script_result\<close>.\<close>

definition send_script_result :: "'w host \<Rightarrow> queue_id option \<Rightarrow> 'w \<Rightarrow> (exn + unit) \<times> 'w" where
  "send_script_result H resultsid w = put H resultsid (PNone, None) w"

text \<open>
  \<^verbatim>\<open>WorkerContext._call\<close>: the call \<^verbatim>\<open>func(*args or (), **kwargs or {})\<close>,
  then the put of \<^verbatim>\<open>(res, None)\<close>, each under \<^verbatim>\<open>_capture_exc\<close>.
\<close>

definition call ::
  "'w host \<Rightarrow> pyval \<Rightarrow> pyval \<Rightarrow> pyval \<Rightarrow> queue_id option \<Rightarrow> 'w \<Rightarrow> (exn + unit) \<times> 'w" where
  "call H func args kwargs resultsid w =
     (case capture_exc H resultsid
             (call_fn H func (py_or args (PTuple [])) (py_or kwargs (PDict []))) w of
        (Inl e, w1) \<Rightarrow> (Inl e, w1)
      | (Inr res, w1) \<Rightarrow> capture_exc H resultsid (put H resultsid (res, None)) w1)"

text \<open>\<^verbatim>\<open>WorkerContext._call_pickled\<close>.\<close>

definition call_pickled ::
  "'w host \<Rightarrow> bytes \<Rightarrow> queue_id option \<Rightarrow> 'w \<Rightarrow> (exn + unit) \<times> 'w" where
  "call_pickled H pickled resultsid w =
     (case capture_exc H resultsid (\<lambda>w0. (pickle_loads H pickled, w0)) w of
        (Inl e, w1) \<Rightarrow> (Inl e, w1)
      | (Inr (fn, args, kwargs), w1) \<Rightarrow> call H fn args kwargs resultsid w1)"

subsection \<open>Executing a script in the runtime\<close>

text \<open>
  The two scripts the module builds: the bootstrap
  \<^verbatim>\<open>f'from {__name__} import WorkerContext'\<close> and the dispatch
  \<^verbatim>\<open>f'WorkerContext._call_pickled({data!r}, {self.resultsid})'\<close>, kept as the values
  formatted into the text.
\<close>

datatype script =
    Bootstrap string
  | CallPickled bytes "queue_id option"

definition dunder_name :: string where
  "dunder_name = ''concurrent.futures.interpreter''"

definition run_script :: "'w host \<Rightarrow> script \<Rightarrow> 'w \<Rightarrow> (exn + unit) \<times> 'w" where
  "run_script H s w =
     (case s of
        Bootstrap m \<Rightarrow> interp_import H m w
      | CallPickled d q \<Rightarrow> call_pickled H d q w)"

text \<open>
  Modelled from the spec: \<^verbatim>\<open>_interpreters.exec(id, script, restrict=True)\<close>, of the
  C module \<^verbatim>\<open>_interpreters\<close>.  The spec's contract for it is
  \<^verbatim>\<open>execute(handle, scriptText, restricted) -> optional exception-info\<close>: it
  "returns structured failure info rather than raising directly".  Entering the runtime
  can raise (the handle is not found); the script then runs inside the runtime, and an
  exception it leaves uncaught is returned as a descriptor.
\<close>

definition interp_exec ::
  "'w host \<Rightarrow> interp_id \<Rightarrow> script \<Rightarrow> bool \<Rightarrow> 'w \<Rightarrow> (exn + excinfo option) \<times> 'w" where
  "interp_exec H i s restrict w =
     (case interp_enter H i restrict w of
        (Inl e, w1) \<Rightarrow> (Inl e, w1)
      | (Inr u, w1) \<Rightarrow>
          (case run_script H s w1 of
             (Inl e, w2) \<Rightarrow> (Inr (Some (exc_snapshot H e)), interp_leave H i w2)
           | (Inr v, w2) \<Rightarrow> (Inr None, interp_leave H i w2)))"


subsection \<open>The context object\<close>

text \<open>
  The mapping \<^verbatim>\<open>shared\<close> is a mutable object the caller keeps a reference to, so
  mappings live in a store and are named by their address.  \<^verbatim>\<open>dict(shared)\<close>
  allocates a new mapping with the same items.  A reference always names an allocated
  object; the model reads no item at an address that does not.
\<close>

type_synonym dict = "(string \<times> pyval) list"
type_synonym store = "dict list"

definition store_get :: "store \<Rightarrow> addr \<Rightarrow> dict" where
  "store_get st a = (if a < length st then st ! a else [])"

definition store_set :: "store \<Rightarrow> addr \<Rightarrow> dict \<Rightarrow> store" where
  "store_set st a d = (if a < length st then st[a := d] else st)"

definition dict_copy :: "store \<Rightarrow> addr \<Rightarrow> addr \<times> store" where
  "dict_copy st a = (length st, st @ [store_get st a])"

record ctx =
  initdata :: "bytes option"
  shared :: "addr option"
  interpid :: "interp_id option"
  resultsid :: "queue_id option"

text \<open>\<^verbatim>\<open>WorkerContext.__init__(self, initdata, shared=None)\<close>.\<close>

definition WorkerContext_init :: "bytes option \<Rightarrow> addr option \<Rightarrow> store \<Rightarrow> ctx \<times> store" where
  "WorkerContext_init data sh st =
     (case sh of
        None \<Rightarrow> (\<lparr>initdata = data, shared = None, interpid = None, resultsid = None\<rparr>, st)
      | Some a \<Rightarrow>
          (if store_get st a \<noteq> [] then
             (case dict_copy st a of
                (b, st1) \<Rightarrow>
                  (\<lparr>initdata = data, shared = Some b, interpid = None, resultsid = None\<rparr>, st1))
           else (\<lparr>initdata = data, shared = None, interpid = None, resultsid = None\<rparr>, st)))"

text \<open>The closure \<^verbatim>\<open>create_context\<close> that \<^verbatim>\<open>prepare\<close> returns.\<close>

definition create_context :: "bytes option \<times> addr option \<Rightarrow> store \<Rightarrow> ctx \<times> store" where
  "create_context cl st = WorkerContext_init (fst cl) (snd cl) st"

text \<open>\<^verbatim>\<open>WorkerContext._exec\<close>.  Assertions are enabled, as they are by default.\<close>

definition exec_ctx :: "'w host \<Rightarrow> ctx \<Rightarrow> script \<Rightarrow> 'w \<Rightarrow> (exn + unit) \<times> 'w" where
  "exec_ctx H self s w =
     (case interpid self of
        None \<Rightarrow> (Inl (AssertionError []), w)
      | Some i \<Rightarrow>
          (case interp_exec H i s True w of
             (Inl e, w1) \<Rightarrow> (Inl e, w1)
           | (Inr None, w1) \<Rightarrow> (Inr (), w1)
           | (Inr (Some xi), w1) \<Rightarrow>
               (case ExecutionFailed_init xi of
                  Inl e \<Rightarrow> (Inl e, w1)
                | Inr ef \<Rightarrow> (Inl ef, w1))))"

text \<open>\<^verbatim>\<open>WorkerContext.finalize\<close>.\<close>

definition finalize :: "'w host \<Rightarrow> ctx \<Rightarrow> 'w \<Rightarrow> (exn + unit) \<times> ctx \<times> 'w" where
  "finalize H self w =
     (let interpid0 = interpid self;
          resultsid0 = resultsid self;
          self1 = self\<lparr>resultsid := None, interpid := None\<rparr>
      in
        (case (case resultsid0 of
                 None \<Rightarrow> (Inr (), w)
               | Some q \<Rightarrow>
                   (case queue_destroy H q w of
                      (Inl e, w1) \<Rightarrow>
                        (if isinstance e ''QueueNotFoundError'' then (Inr (), w1)
                         else (Inl e, w1))
                    | (Inr u, w1) \<Rightarrow> (Inr (), w1))) of
           (Inl e, w1) \<Rightarrow> (Inl e, self1, w1)
         | (Inr u, w1) \<Rightarrow>
             (case interpid0 of
                None \<Rightarrow> (Inr (), self1, w1)
              | Some i \<Rightarrow>
                  (case interp_decref H i w1 of
                     (Inl e, w2) \<Rightarrow>
                       (if isinstance e ''InterpreterNotFoundError'' then (Inr (), self1, w2)
                        else (Inl e, self1, w2))
                   | (Inr v, w2) \<Rightarrow> (Inr (), self1, w2)))))"

text \<open>\<^verbatim>\<open>WorkerContext.__del__\<close>.\<close>

definition del_ctx :: "'w host \<Rightarrow> ctx \<Rightarrow> 'w \<Rightarrow> (exn + unit) \<times> ctx \<times> 'w" where
  "del_ctx H self w =
     (if interpid self \<noteq> None then finalize H self w else (Inr (), self, w))"

subsection \<open>run\<close>

text \<open>
  The \<^verbatim>\<open>while True\<close> loop of \<^verbatim>\<open>run\<close>.  The loop has no bound, so the model
  takes the number of attempts it may make; \<open>None\<close> is the loop still running when
  they are used up.  The \<^verbatim>\<open>except\<close> clauses are tried in the order of the source.
\<close>

fun get_result ::
  "'w host \<Rightarrow> nat \<Rightarrow> queue_id option \<Rightarrow> 'w \<Rightarrow> ((exn + queue_obj) \<times> 'w) option" where
  "get_result H 0 rid w = None"
| "get_result H (Suc n) rid w =
     (case get H rid w of
        (Inr obj, w1) \<Rightarrow> Some (Inr obj, w1)
      | (Inl e, w1) \<Rightarrow>
          (if isinstance e ''QueueNotFoundError'' then Some (Inl e, w1)
           else if isinstance e ''QueueError'' then get_result H n rid w1
           else if isinstance e ''ModuleNotFoundError'' then get_result H n rid w1
           else Some (Inl e, w1)))"

text \<open>The statements of \<^verbatim>\<open>run\<close> after the loop: unpacking \<^verbatim>\<open>obj\<close>.\<close>

definition run_result :: "exn option \<Rightarrow> queue_obj \<Rightarrow> exn + pyval" where
  "run_result exc_wrapper obj =
     (case obj of
        ((res, exc), unboundop) \<Rightarrow>
          (case unboundop of
             Some u \<Rightarrow> Inl (AssertionError [PInt u])
           | None \<Rightarrow>
               (case exc of
                  Some x \<Rightarrow>
                    (if res \<noteq> PNone then Inl (AssertionError [res])
                     else
                       (case exc_wrapper of
                          None \<Rightarrow> Inl (AssertionError [])
                        | Some wr \<Rightarrow> Inl (raise_from x wr)))
                | None \<Rightarrow> Inr res)))"

text \<open>
  \<^verbatim>\<open>WorkerContext.run\<close>.  An exception of \<^verbatim>\<open>_exec\<close> other than
  \<^verbatim>\<open>ExecutionFailed\<close> leaves \<open>run\<close> before the loop.
\<close>

definition run ::
  "'w host \<Rightarrow> nat \<Rightarrow> ctx \<Rightarrow> bytes \<Rightarrow> 'w \<Rightarrow> ((exn + pyval) \<times> 'w) option" where
  "run H n self task w =
     (let script = CallPickled task (resultsid self) in
        (case (case exec_ctx H self script w of
                 (Inl e, w1) \<Rightarrow>
                   (if isinstance e ''ExecutionFailed'' then (Inr (Some e), w1)
                    else (Inl e, w1))
               | (Inr u, w1) \<Rightarrow> (Inr None, w1)) of
           (Inl e, w1) \<Rightarrow> Some (Inl e, w1)
         | (Inr exc_wrapper, w1) \<Rightarrow>
             (case get_result H n (resultsid self) w1 of
                None \<Rightarrow> None
              | Some (Inl e, w2) \<Rightarrow> Some (Inl e, w2)
              | Some (Inr obj, w2) \<Rightarrow> Some (run_result exc_wrapper obj, w2))))"

subsection \<open>initialize\<close>

text \<open>
  The body of the \<^verbatim>\<open>try\<close> statement of \<^verbatim>\<open>initialize\<close>, entered with
  \<^verbatim>\<open>self.interpid\<close> set to the new runtime \<open>i\<close>.  The store is read for the
  items of \<^verbatim>\<open>self.shared\<close>.
\<close>

definition initialize_body ::
  "'w host \<Rightarrow> nat \<Rightarrow> store \<Rightarrow> interp_id \<Rightarrow> ctx \<Rightarrow> 'w \<Rightarrow> ((exn + unit) \<times> ctx \<times> 'w) option" where
  "initialize_body H n st i self w =
     (case interp_incref H i w of
        (Inl e, w1) \<Rightarrow> Some (Inl e, self, w1)
      | (Inr u, w1) \<Rightarrow>
          (case queue_create H 0 w1 of
             (Inl e, w2) \<Rightarrow> Some (Inl e, self, w2)
           | (Inr q, w2) \<Rightarrow>
               (let self1 = self\<lparr>resultsid := Some q\<rparr> in
                  (case exec_ctx H self1 (Bootstrap dunder_name) w2 of
                     (Inl e, w3) \<Rightarrow> Some (Inl e, self1, w3)
                   | (Inr v, w3) \<Rightarrow>
                       (case (case shared self1 of
                                None \<Rightarrow> (Inr (), w3)
                              | Some a \<Rightarrow>
                                  (if store_get st a \<noteq> []
                                   then interp_set_main_attrs H i (store_get st a) True w3
                                   else (Inr (), w3))) of
                          (Inl e, w4) \<Rightarrow> Some (Inl e, self1, w4)
                        | (Inr x, w4) \<Rightarrow>
                            (case initdata self1 of
                               None \<Rightarrow> Some (Inr (), self1, w4)
                             | Some d \<Rightarrow>
                                 (if d \<noteq> [] then
                                    (case run H n self1 d w4 of
                                       None \<Rightarrow> None
                                     | Some (Inl e, w5) \<Rightarrow> Some (Inl e, self1, w5)
                                     | Some (Inr r, w5) \<Rightarrow> Some (Inr (), self1, w5))
                                  else Some (Inr (), self1, w4))))))))"

text \<open>\<^verbatim>\<open>WorkerContext.initialize\<close>.\<close>

definition initialize ::
  "'w host \<Rightarrow> nat \<Rightarrow> store \<Rightarrow> ctx \<Rightarrow> 'w \<Rightarrow> ((exn + unit) \<times> ctx \<times> 'w) option" where
  "initialize H n st self w =
     (case interpid self of
        Some j \<Rightarrow> Some (Inl (AssertionError [PInt (int j)]), self, w)
      | None \<Rightarrow>
          (case interp_create H True w of
             (Inl e, w0) \<Rightarrow> Some (Inl e, self, w0)
           | (Inr i, w0) \<Rightarrow>
               (case initialize_body H n st i (self\<lparr>interpid := Some i\<rparr>) w0 of
                  None \<Rightarrow> None
                | Some (Inr u, self1, w1) \<Rightarrow> Some (Inr (), self1, w1)
                | Some (Inl e, self1, w1) \<Rightarrow>
                    (case finalize H self1 w1 of
                       (Inl e2, self2, w2) \<Rightarrow> Some (Inl e2, self2, w2)
                     | (Inr v, self2, w2) \<Rightarrow> Some (Inl e, self2, w2)))))"


section \<open>A reference host\<close>

text \<open>
  Modelled from the spec: the Isolated Runtime and the Channel of the spec's external
  interfaces, which the module reaches through \<^verbatim>\<open>_interpreters\<close> and
  \<^verbatim>\<open>_interpqueues\<close>.  A runtime is a handle with a reference count, destroyed when
  the count falls to zero; a channel is a first-in first-out queue found by its handle.
  Using a handle that does not exist fails with the not-found condition, and reading an
  empty channel with the transient-empty one.  The host is one instance of the record of
  services, used to run the model on concrete inputs.
\<close>

record world =
  runtimes :: "(interp_id \<times> nat) list"
  queues :: "(queue_id \<times> envelope list) list"
  bindings :: "(interp_id \<times> dict) list"
  next_id :: nat

definition InterpreterNotFoundError :: "interp_id \<Rightarrow> exn" where
  "InterpreterNotFoundError i =
     Exn [''InterpreterNotFoundError'', ''InterpreterError'', ''Exception'', ''BaseException'']
         [PInt (int i)] None None"

definition QueueNotFoundError :: "queue_id \<Rightarrow> exn" where
  "QueueNotFoundError q =
     Exn [''QueueNotFoundError'', ''QueueError'', ''RuntimeError'', ''Exception'',
          ''BaseException'']
         [PInt (int q)] None None"

definition QueueEmpty :: "queue_id \<Rightarrow> exn" where
  "QueueEmpty q =
     Exn [''QueueEmpty'', ''QueueError'', ''RuntimeError'', ''Exception'', ''BaseException'']
         [PInt (int q)] None None"

definition ref_create :: "bool \<Rightarrow> world \<Rightarrow> (exn + interp_id) \<times> world" where
  "ref_create reqrefs w =
     (Inr (next_id w),
      w\<lparr>runtimes := AList.update (next_id w) 0 (runtimes w), next_id := Suc (next_id w)\<rparr>)"

definition ref_incref :: "interp_id \<Rightarrow> world \<Rightarrow> (exn + unit) \<times> world" where
  "ref_incref i w =
     (case map_of (runtimes w) i of
        None \<Rightarrow> (Inl (InterpreterNotFoundError i), w)
      | Some c \<Rightarrow> (Inr (), w\<lparr>runtimes := AList.update i (Suc c) (runtimes w)\<rparr>))"

definition ref_decref :: "interp_id \<Rightarrow> world \<Rightarrow> (exn + unit) \<times> world" where
  "ref_decref i w =
     (case map_of (runtimes w) i of
        None \<Rightarrow> (Inl (InterpreterNotFoundError i), w)
      | Some c \<Rightarrow>
          (if c \<le> 1 then (Inr (), w\<lparr>runtimes := AList.delete i (runtimes w)\<rparr>)
           else (Inr (), w\<lparr>runtimes := AList.update i (c - 1) (runtimes w)\<rparr>)))"

definition ref_enter :: "interp_id \<Rightarrow> bool \<Rightarrow> world \<Rightarrow> (exn + unit) \<times> world" where
  "ref_enter i restrict w =
     (case map_of (runtimes w) i of
        None \<Rightarrow> (Inl (InterpreterNotFoundError i), w)
      | Some c \<Rightarrow> (Inr (), w))"

definition ref_set_main_attrs ::
  "interp_id \<Rightarrow> dict \<Rightarrow> bool \<Rightarrow> world \<Rightarrow> (exn + unit) \<times> world" where
  "ref_set_main_attrs i d restrict w =
     (case map_of (runtimes w) i of
        None \<Rightarrow> (Inl (InterpreterNotFoundError i), w)
      | Some c \<Rightarrow> (Inr (), w\<lparr>bindings := AList.update i d (bindings w)\<rparr>))"

text \<open>
  Three callables stand for the tasks: one that adds two integers, one that raises
  \<^verbatim>\<open>ValueError("boom")\<close> and one that returns \<^verbatim>\<open>None\<close>.
\<close>

definition ref_call :: "pyval \<Rightarrow> pyval \<Rightarrow> pyval \<Rightarrow> world \<Rightarrow> (exn + pyval) \<times> world" where
  "ref_call f args kwargs w =
     (if f = PObj ''operator.add'' then
        (case args of
           PTuple [PInt a, PInt b] \<Rightarrow> (Inr (PInt (a + b)), w)
         | _ \<Rightarrow> (Inl (TypeError ''expected 2 arguments''), w))
      else if f = PObj ''tasks.boom'' then (Inl (ValueError ''boom''), w)
      else if f = PObj ''tasks.nothing'' then (Inr PNone, w)
      else (Inl (TypeError ''object is not callable''), w))"

definition ref_str :: "pyval list \<Rightarrow> string" where
  "ref_str args = (case args of [PStr s] \<Rightarrow> s | _ \<Rightarrow> [])"

definition ref_snapshot :: "exn \<Rightarrow> excinfo" where
  "ref_snapshot e =
     \<lparr>formatted = Some (hd (exn_mro e) @ '': '' @ ref_str (exn_args e)),
      exc_type = Some (hd (exn_mro e)),
      exc_msg = Some (ref_str (exn_args e)),
      errdisplay = Some (hd (exn_mro e) @ '': '' @ ref_str (exn_args e))\<rparr>"

definition ref_queue_create :: "nat \<Rightarrow> world \<Rightarrow> (exn + queue_id) \<times> world" where
  "ref_queue_create maxsize w =
     (Inr (next_id w),
      w\<lparr>queues := AList.update (next_id w) [] (queues w), next_id := Suc (next_id w)\<rparr>)"

definition ref_put :: "queue_id \<Rightarrow> envelope \<Rightarrow> world \<Rightarrow> (exn + unit) \<times> world" where
  "ref_put q env w =
     (case map_of (queues w) q of
        None \<Rightarrow> (Inl (QueueNotFoundError q), w)
      | Some items \<Rightarrow> (Inr (), w\<lparr>queues := AList.update q (items @ [env]) (queues w)\<rparr>))"

definition ref_get :: "queue_id \<Rightarrow> world \<Rightarrow> (exn + queue_obj) \<times> world" where
  "ref_get q w =
     (case map_of (queues w) q of
        None \<Rightarrow> (Inl (QueueNotFoundError q), w)
      | Some [] \<Rightarrow> (Inl (QueueEmpty q), w)
      | Some (env # items) \<Rightarrow>
          (Inr (env, None), w\<lparr>queues := AList.update q items (queues w)\<rparr>))"

definition ref_destroy :: "queue_id \<Rightarrow> world \<Rightarrow> (exn + unit) \<times> world" where
  "ref_destroy q w =
     (case map_of (queues w) q of
        None \<Rightarrow> (Inl (QueueNotFoundError q), w)
      | Some items \<Rightarrow> (Inr (), w\<lparr>queues := AList.delete q (queues w)\<rparr>))"

text \<open>
  The encoder of the reference host knows three tasks and gives each a one-byte blob.
\<close>

definition task_add :: task where
  "task_add = (PObj ''operator.add'', PTuple [PInt 2, PInt 3], PDict [])"

definition task_boom :: task where
  "task_boom = (PObj ''tasks.boom'', PTuple [], PDict [])"

definition task_nothing :: task where
  "task_nothing = (PObj ''tasks.nothing'', PTuple [], PDict [])"

definition ref_dumps :: "task \<Rightarrow> exn + bytes" where
  "ref_dumps t =
     (if t = task_add then Inr ''A''
      else if t = task_boom then Inr ''B''
      else if t = task_nothing then Inr ''N''
      else Inl (TypeError ''cannot pickle object''))"

definition ref_loads :: "bytes \<Rightarrow> exn + task" where
  "ref_loads b =
     (if b = ''A'' then Inr task_add
      else if b = ''B'' then Inr task_boom
      else if b = ''N'' then Inr task_nothing
      else Inl (ValueError ''invalid load key''))"

definition ref_host :: "world host" where
  "ref_host =
     \<lparr>pickle_dumps = ref_dumps,
      pickle_loads = ref_loads,
      py_repr = (\<lambda>v. ''<object>''),
      str_strip = (\<lambda>s. s),
      textwrap_dedent = (\<lambda>s. s),
      interp_create = ref_create,
      interp_incref = ref_incref,
      interp_decref = ref_decref,
      interp_enter = ref_enter,
      interp_leave = (\<lambda>i w. w),
      interp_import = (\<lambda>m w. (Inr (), w)),
      interp_set_main_attrs = ref_set_main_attrs,
      call_fn = ref_call,
      exc_snapshot = ref_snapshot,
      queue_create = ref_queue_create,
      queue_put = ref_put,
      queue_get = ref_get,
      queue_destroy = ref_destroy\<rparr>"

definition world0 :: world where
  "world0 = \<lparr>runtimes = [], queues = [], bindings = [], next_id = 0\<rparr>"

text \<open>
  A context before \<open>initialize\<close> and the one \<open>initialize\<close> leaves on the empty
  world: runtime 0, held once, and the empty results queue 1.
\<close>

definition ctx_unset :: ctx where
  "ctx_unset = \<lparr>initdata = None, shared = None, interpid = None, resultsid = None\<rparr>"

definition ctx_ready :: ctx where
  "ctx_ready = \<lparr>initdata = None, shared = None, interpid = Some 0, resultsid = Some 1\<rparr>"

definition world_ready :: world where
  "world_ready = \<lparr>runtimes = [(0, 1)], queues = [(1, [])], bindings = [], next_id = 2\<rparr>"

definition world_done :: world where
  "world_done = \<lparr>runtimes = [], queues = [], bindings = [], next_id = 2\<rparr>"

text \<open>
  What the caller of \<open>run\<close> receives when the task raises \<^verbatim>\<open>ValueError("boom")\<close>
  on the reference host.
\<close>

definition remote_boom :: exn where
  "remote_boom =
     Exn [''ValueError'', ''Exception'', ''BaseException''] [PStr ''boom''] None
         (Some (ExecutionFailed_new (Some ''ValueError: boom'')
                  (ref_snapshot (ValueError ''boom''))))"

text \<open>
  The \<^verbatim>\<open>ExecutionFailed\<close> the reference host's descriptor of
  \<^verbatim>\<open>ValueError("boom")\<close> gives.
\<close>

definition boom_wrapper :: exn where
  "boom_wrapper =
     ExecutionFailed_new (Some ''ValueError: boom'') (ref_snapshot (ValueError ''boom''))"

text \<open>
  A descriptor with no formatted text and no display text, and a store holding the
  caller's mapping \<^verbatim>\<open>{"X": 42}\<close> with the copy the context makes of it.
\<close>

definition info_plain :: excinfo where
  "info_plain = \<lparr>formatted = None, exc_type = Some ''KeyError'', exc_msg = Some ''k'',
                  errdisplay = None\<rparr>"

definition store_x :: store where
  "store_x = [[(''X'', PInt 42)]]"

definition store_x_copied :: store where
  "store_x_copied = [[(''X'', PInt 42)], [(''X'', PInt 42)]]"

definition ctx_shared :: ctx where
  "ctx_shared = \<lparr>initdata = None, shared = Some 1, interpid = None, resultsid = None\<rparr>"

text \<open>
  States of the reference host on the way: the context and the world when the
  \<^verbatim>\<open>try\<close> statement of \<open>initialize\<close> is entered with the task \<^verbatim>\<open>b"B"\<close> as
  initializer, and the world with the envelope of \<^verbatim>\<open>ValueError("boom")\<close> on the
  results queue.
\<close>

definition ctx_boom_entered :: ctx where
  "ctx_boom_entered =
     \<lparr>initdata = Some ''B'', shared = None, interpid = Some 0, resultsid = None\<rparr>"

definition world_created :: world where
  "world_created = \<lparr>runtimes = [(0, 0)], queues = [], bindings = [], next_id = 1\<rparr>"

definition world_boom :: world where
  "world_boom = world_ready\<lparr>queues := [(1, [(PNone, Some (ValueError ''boom''))])]\<rparr>"

section \<open>Recording the envelopes written\<close>

text \<open>
  To speak about every envelope the isolated side writes, a host is wrapped so that its
  state carries the list of the envelopes \<open>queue_put\<close> accepted, in order.  The wrapped
  host behaves as the host it wraps.
\<close>

definition lift_w ::
  "('w \<Rightarrow> 'r \<times> 'w) \<Rightarrow> envelope list \<times> 'w \<Rightarrow> 'r \<times> (envelope list \<times> 'w)" where
  "lift_w f s = (case f (snd s) of (r, w1) \<Rightarrow> (r, (fst s, w1)))"

definition record_put ::
  "('w \<Rightarrow> (exn + unit) \<times> 'w) \<Rightarrow> envelope \<Rightarrow> envelope list \<times> 'w
     \<Rightarrow> (exn + unit) \<times> (envelope list \<times> 'w)" where
  "record_put f env s =
     (case f (snd s) of
        (Inl e, w1) \<Rightarrow> (Inl e, (fst s, w1))
      | (Inr u, w1) \<Rightarrow> (Inr u, (fst s @ [env], w1)))"

definition recording :: "'w host \<Rightarrow> (envelope list \<times> 'w) host" where
  "recording H =
     \<lparr>pickle_dumps = pickle_dumps H,
      pickle_loads = pickle_loads H,
      py_repr = py_repr H,
      str_strip = str_strip H,
      textwrap_dedent = textwrap_dedent H,
      interp_create = (\<lambda>b. lift_w (interp_create H b)),
      interp_incref = (\<lambda>i. lift_w (interp_incref H i)),
      interp_decref = (\<lambda>i. lift_w (interp_decref H i)),
      interp_enter = (\<lambda>i b. lift_w (interp_enter H i b)),
      interp_leave = (\<lambda>i s. (fst s, interp_leave H i (snd s))),
      interp_import = (\<lambda>m. lift_w (interp_import H m)),
      interp_set_main_attrs = (\<lambda>i d b. lift_w (interp_set_main_attrs H i d b)),
      call_fn = (\<lambda>f a k. lift_w (call_fn H f a k)),
      exc_snapshot = exc_snapshot H,
      queue_create = (\<lambda>m. lift_w (queue_create H m)),
      queue_put = (\<lambda>q env. record_put (queue_put H q env) env),
      queue_get = (\<lambda>q. lift_w (queue_get H q)),
      queue_destroy = (\<lambda>q. lift_w (queue_destroy H q))\<rparr>"

definition value_populated :: "envelope \<Rightarrow> bool" where
  "value_populated env = (fst env \<noteq> PNone)"

definition error_populated :: "envelope \<Rightarrow> bool" where
  "error_populated env = (snd env \<noteq> None)"

definition exactly_one_populated :: "envelope \<Rightarrow> bool" where
  "exactly_one_populated env = (value_populated env \<noteq> error_populated env)"

text \<open>
  The value the callable of a task returns when it is called in the state \<open>w\<close>:
  \<open>returned\<close> for the arguments \<^verbatim>\<open>_call\<close> receives, \<open>task_returned\<close> for the
  blob \<^verbatim>\<open>_call_pickled\<close> receives.
\<close>

definition returned :: "'w host \<Rightarrow> pyval \<Rightarrow> pyval \<Rightarrow> pyval \<Rightarrow> 'w \<Rightarrow> pyval \<Rightarrow> bool" where
  "returned H func args kwargs w v =
     (fst (call_fn H func (py_or args (PTuple [])) (py_or kwargs (PDict [])) w) = Inr v)"

definition task_returned :: "'w host \<Rightarrow> bytes \<Rightarrow> 'w \<Rightarrow> pyval \<Rightarrow> bool" where
  "task_returned H pickled w v =
     (case pickle_loads H pickled of
        Inl e \<Rightarrow> False
      | Inr (fn, args, kwargs) \<Rightarrow> returned H fn args kwargs w v)"

text \<open>
  What an envelope written for a task may be, \<open>ret\<close> telling the values the callable
  returned: an envelope with exactly one field populated, which holds an exception or
  holds the value the callable returned; or \<^verbatim>\<open>(None, None)\<close>, when the callable
  returned \<^verbatim>\<open>None\<close>.
\<close>

definition envelope_ok :: "(pyval \<Rightarrow> bool) \<Rightarrow> envelope \<Rightarrow> bool" where
  "envelope_ok ret env =
     (exactly_one_populated env \<and> (error_populated env \<or> ret (fst env))
      \<or> env = (PNone, None) \<and> ret PNone)"

text \<open>The envelopes a call added to the list all satisfy \<open>P\<close>.\<close>

definition written_all :: "(envelope \<Rightarrow> bool) \<Rightarrow> envelope list \<Rightarrow> envelope list \<Rightarrow> bool" where
  "written_all P lg lg1 = (\<exists>new. lg1 = lg @ new \<and> (\<forall>env\<in>set new. P env))"

text \<open>\<open>contains_str s t\<close>: the string \<open>t\<close> occurs in the string \<open>s\<close>.\<close>

fun starts_with :: "string \<Rightarrow> string \<Rightarrow> bool" where
  "starts_with s [] = True"
| "starts_with [] (c # t) = False"
| "starts_with (a # s) (c # t) = (a = c \<and> starts_with s t)"

fun contains_str :: "string \<Rightarrow> string \<Rightarrow> bool" where
  "contains_str [] t = (t = [])"
| "contains_str (a # s) t = (starts_with (a # s) t \<or> contains_str s t)"

section \<open>The steps of initialize that can fail\<close>

text \<open>
  \<open>try_step_fails H n st i self w e self1 w1\<close>: in the \<^verbatim>\<open>try\<close> statement of
  \<open>initialize\<close>, entered with the context \<open>self\<close> (its runtime handle set to \<open>i\<close>)
  and the state \<open>w\<close>, one step raises \<open>e\<close> after the steps before it have returned,
  leaving the context \<open>self1\<close> and the state \<open>w1\<close>.  There is one rule for each
  step: \<^verbatim>\<open>incref\<close>, the creation of the queue, the bootstrap script, the injection
  of the shared mapping, and the initializer task.
\<close>

inductive try_step_fails ::
  "'w host \<Rightarrow> nat \<Rightarrow> store \<Rightarrow> interp_id \<Rightarrow> ctx \<Rightarrow> 'w \<Rightarrow> exn \<Rightarrow> ctx \<Rightarrow> 'w \<Rightarrow> bool"
  for H :: "'w host" and n :: nat and st :: store and i :: interp_id and self :: ctx and w :: 'w
  where
    at_incref:
      "interp_incref H i w = (Inl e, w1) \<Longrightarrow> try_step_fails H n st i self w e self w1"
  | at_queue_create:
      "interp_incref H i w = (Inr u, w1) \<Longrightarrow> queue_create H 0 w1 = (Inl e, w2)
       \<Longrightarrow> try_step_fails H n st i self w e self w2"
  | at_bootstrap:
      "interp_incref H i w = (Inr u, w1) \<Longrightarrow> queue_create H 0 w1 = (Inr q, w2)
       \<Longrightarrow> exec_ctx H (self\<lparr>resultsid := Some q\<rparr>) (Bootstrap dunder_name) w2 = (Inl e, w3)
       \<Longrightarrow> try_step_fails H n st i self w e (self\<lparr>resultsid := Some q\<rparr>) w3"
  | at_injection:
      "interp_incref H i w = (Inr u, w1) \<Longrightarrow> queue_create H 0 w1 = (Inr q, w2)
       \<Longrightarrow> exec_ctx H (self\<lparr>resultsid := Some q\<rparr>) (Bootstrap dunder_name) w2 = (Inr v, w3)
       \<Longrightarrow> shared self = Some a \<Longrightarrow> store_get st a \<noteq> []
       \<Longrightarrow> interp_set_main_attrs H i (store_get st a) True w3 = (Inl e, w4)
       \<Longrightarrow> try_step_fails H n st i self w e (self\<lparr>resultsid := Some q\<rparr>) w4"
  | at_initializer:
      "interp_incref H i w = (Inr u, w1) \<Longrightarrow> queue_create H 0 w1 = (Inr q, w2)
       \<Longrightarrow> exec_ctx H (self\<lparr>resultsid := Some q\<rparr>) (Bootstrap dunder_name) w2 = (Inr v, w3)
       \<Longrightarrow> (case shared self of
             None \<Rightarrow> (Inr (), w3)
           | Some a \<Rightarrow>
               (if store_get st a \<noteq> [] then interp_set_main_attrs H i (store_get st a) True w3
                else (Inr (), w3))) = (Inr x, w4)
       \<Longrightarrow> initdata self = Some d \<Longrightarrow> d \<noteq> []
       \<Longrightarrow> run H n (self\<lparr>resultsid := Some q\<rparr>) d w4 = Some (Inl e, w5)
       \<Longrightarrow> try_step_fails H n st i self w e (self\<lparr>resultsid := Some q\<rparr>) w5"

section \<open>Evaluating the model on the reference host\<close>

lemma ref_host_simps [simp]:
  "pickle_dumps ref_host = ref_dumps"
  "pickle_loads ref_host = ref_loads"
  "interp_create ref_host = ref_create"
  "interp_incref ref_host = ref_incref"
  "interp_decref ref_host = ref_decref"
  "interp_enter ref_host = ref_enter"
  "interp_leave ref_host = (\<lambda>i w. w)"
  "interp_import ref_host = (\<lambda>m w. (Inr (), w))"
  "interp_set_main_attrs ref_host = ref_set_main_attrs"
  "call_fn ref_host = ref_call"
  "exc_snapshot ref_host = ref_snapshot"
  "queue_create ref_host = ref_queue_create"
  "queue_put ref_host = ref_put"
  "queue_get ref_host = ref_get"
  "queue_destroy ref_host = ref_destroy"
  "py_repr ref_host = (\<lambda>v. ''<object>'')"
  "str_strip ref_host = (\<lambda>s. s)"
  "textwrap_dedent ref_host = (\<lambda>s. s)"
  by (simp_all add: ref_host_def)

lemma rec_ref_simps [simp]:
  "pickle_loads (recording H) = pickle_loads H"
  "call_fn (recording H) = (\<lambda>f a k. lift_w (call_fn H f a k))"
  "queue_put (recording H) = (\<lambda>q env. record_put (queue_put H q env) env)"
  "interp_enter (recording H) = (\<lambda>i b. lift_w (interp_enter H i b))"
  "interp_leave (recording H) = (\<lambda>i s. (fst s, interp_leave H i (snd s)))"
  "exc_snapshot (recording H) = exc_snapshot H"
  "queue_get (recording H) = (\<lambda>q. lift_w (queue_get H q))"
  by (simp_all add: recording_def)

lemmas ref_defs = ref_create_def ref_incref_def ref_decref_def ref_enter_def
  ref_set_main_attrs_def ref_call_def ref_snapshot_def ref_str_def ref_queue_create_def
  ref_put_def ref_get_def ref_destroy_def ref_dumps_def ref_loads_def
  task_add_def task_boom_def task_nothing_def world0_def
  ctx_unset_def ctx_ready_def world_ready_def world_done_def remote_boom_def boom_wrapper_def

lemmas model_defs = initialize_def initialize_body_def finalize_def run_def run_result_def
  exec_ctx_def interp_exec_def run_script_def call_pickled_def call_def capture_exc_def
  put_def get_def store_get_def ExecutionFailed_init_def ExecutionFailed_new_def
  str_truthy_def opt_val_def isinstance_def raise_from_def py_or_def
  TypeError_def ValueError_def AttributeError_def AssertionError_def
  InterpreterNotFoundError_def QueueNotFoundError_def QueueEmpty_def

section \<open>The task encoder rejects scripts\<close>

text \<open>
  C6.  A task whose callable \<open>fn\<close> is a string is refused by the encoder
  \<open>resolve_task\<close> with the error "scripts not supported", for every string and every
  \<open>args\<close> and \<open>kwargs\<close>.  The encoder takes neither a context nor the state of the
  services, so the error is returned to the submitter with no runtime and no queue
  created.
\<close>

theorem resolve_task_script_not_supported:
  "resolve_task H (PStr s) args kwargs = Inl (TypeError ''scripts not supported'')"
  by (simp add: resolve_task_def)

text \<open>
  C5.  With a script (a string) as initializer, \<open>prepare\<close> raises what the encoder
  raises, the \<^verbatim>\<open>TypeError\<close> "scripts not supported", whatever \<open>initargs\<close> is:
  the handler that would raise "an initializer script does not take args" catches
  \<^verbatim>\<open>ValueError\<close> only, and \<^verbatim>\<open>TypeError\<close> is not one.
\<close>

theorem prepare_script_initializer_not_supported:
  "prepare H (PStr s) initargs sh = Inl (TypeError ''scripts not supported'')
   \<and> prepare H (PStr s) initargs sh
       \<noteq> Inl (ValueError (''an initializer script does not take args, got ''
                           @ py_repr H initargs))"
  by (simp add: prepare_def resolve_task_def isinstance_def TypeError_def ValueError_def)


section \<open>The retrieval loop of run\<close>

text \<open>
  C8.  In the retrieval loop of \<open>run\<close>, an attempt that raises
  \<^verbatim>\<open>QueueNotFoundError\<close> ends the loop at once with that exception, raised again
  as it is, after this one attempt.  An attempt that raises any other
  \<^verbatim>\<open>QueueError\<close>, or \<^verbatim>\<open>ModuleNotFoundError\<close>, is followed by the next attempt
  on the state the failed one left.  Whatever the number of attempts, an exception the
  loop raises is never one of the retried kind.
\<close>

theorem get_result_fatal_or_retried:
  "(get H rid w = (Inl e, w1) \<and> isinstance e ''QueueNotFoundError''
      \<longrightarrow> get_result H (Suc n) rid w = Some (Inl e, w1))
   \<and> (get H rid w = (Inl e, w1) \<and> \<not> isinstance e ''QueueNotFoundError''
        \<and> (isinstance e ''QueueError'' \<or> isinstance e ''ModuleNotFoundError'')
      \<longrightarrow> get_result H (Suc n) rid w = get_result H n rid w1)
   \<and> (get_result H n rid w = Some (Inl e, w1)
      \<longrightarrow> isinstance e ''QueueNotFoundError''
          \<or> (\<not> isinstance e ''QueueError'' \<and> \<not> isinstance e ''ModuleNotFoundError''))"
proof (intro conjI impI)
  assume "get H rid w = (Inl e, w1) \<and> isinstance e ''QueueNotFoundError''"
  then show "get_result H (Suc n) rid w = Some (Inl e, w1)" by simp
next
  assume "get H rid w = (Inl e, w1) \<and> \<not> isinstance e ''QueueNotFoundError''
        \<and> (isinstance e ''QueueError'' \<or> isinstance e ''ModuleNotFoundError'')"
  then show "get_result H (Suc n) rid w = get_result H n rid w1" by auto
next
  assume "get_result H n rid w = Some (Inl e, w1)"
  then show "isinstance e ''QueueNotFoundError''
          \<or> (\<not> isinstance e ''QueueError'' \<and> \<not> isinstance e ''ModuleNotFoundError'')"
  proof (induction n arbitrary: w)
    case 0
    then show ?case by simp
  next
    case (Suc n)
    then show ?case
      by (auto split: prod.splits sum.splits if_splits)
  qed
qed

text \<open>
  On the reference host, reading the queue 7, which does not exist, raises at the first
  attempt; reading the empty queue 1 is tried again.
\<close>

theorem get_result_fatal_or_retried_witness:
  "get ref_host (Some 7) world_ready = (Inl (QueueNotFoundError 7), world_ready)
   \<and> isinstance (QueueNotFoundError 7) ''QueueNotFoundError''
   \<and> get_result ref_host (Suc 2) (Some 7) world_ready
       = Some (Inl (QueueNotFoundError 7), world_ready)
   \<and> get ref_host (Some 1) world_ready = (Inl (QueueEmpty 1), world_ready)
   \<and> \<not> isinstance (QueueEmpty 1) ''QueueNotFoundError''
   \<and> isinstance (QueueEmpty 1) ''QueueError''
   \<and> get_result ref_host (Suc 2) (Some 1) world_ready
       = get_result ref_host 2 (Some 1) world_ready"
  using get_result_fatal_or_retried
          [of ref_host "Some 7" world_ready "QueueNotFoundError 7" world_ready 2]
        get_result_fatal_or_retried
          [of ref_host "Some 1" world_ready "QueueEmpty 1" world_ready 2]
  by (simp add: get_def ref_get_def world_ready_def isinstance_def QueueNotFoundError_def
      QueueEmpty_def)

section \<open>finalize\<close>

lemma finalize_ctx:
  "fst (snd (finalize H self w)) = self\<lparr>resultsid := None, interpid := None\<rparr>"
  by (simp add: finalize_def Let_def split: option.split prod.split sum.split)

lemma finalize_clears:
  "finalize H self w = (r, self2, w2)
     \<Longrightarrow> self2 = self\<lparr>resultsid := None, interpid := None\<rparr>"
  using finalize_ctx [of H self w] by simp

lemma ref_destroy_not_found:
  "queue_destroy ref_host q w0 = (Inl e, w1) \<Longrightarrow> isinstance e ''QueueNotFoundError''"
  by (auto simp: ref_destroy_def QueueNotFoundError_def isinstance_def split: option.splits)

lemma ref_decref_not_found:
  "interp_decref ref_host i w0 = (Inl e, w1) \<Longrightarrow> isinstance e ''InterpreterNotFoundError''"
  by (auto simp: ref_decref_def InterpreterNotFoundError_def isinstance_def
      split: option.splits if_splits)

text \<open>
  C7.  \<open>finalize\<close> can be called on any context, initialized or not, and again on the
  context it leaves.  The queue and runtime services fail only with their not-found
  conditions (\<^verbatim>\<open>destroy\<close> with \<^verbatim>\<open>QueueNotFoundError\<close>, \<^verbatim>\<open>decref\<close> with
  \<^verbatim>\<open>InterpreterNotFoundError\<close>); then the first call returns without raising and
  leaves both handles \<^verbatim>\<open>None\<close>, and a call on that context returns without raising,
  leaves both handles \<^verbatim>\<open>None\<close> and leaves the state of the services as it found it:
  it calls none of them, so the runtime is not decremented a second time.
\<close>

theorem finalize_idempotent:
  assumes d: "\<And>q w0 e w1. queue_destroy H q w0 = (Inl e, w1)
                \<Longrightarrow> isinstance e ''QueueNotFoundError''"
      and r: "\<And>i w0 e w1. interp_decref H i w0 = (Inl e, w1)
                \<Longrightarrow> isinstance e ''InterpreterNotFoundError''"
  shows "\<exists>w1. finalize H self w = (Inr (), self\<lparr>resultsid := None, interpid := None\<rparr>, w1)
           \<and> finalize H (self\<lparr>resultsid := None, interpid := None\<rparr>) w1
               = (Inr (), self\<lparr>resultsid := None, interpid := None\<rparr>, w1)"
  using d r
  by (auto simp: finalize_def Let_def split: option.splits prod.splits sum.splits)

text \<open>
  On the reference host the first call destroys queue 1 and drops the only reference to
  runtime 0; the second call changes nothing.
\<close>

theorem finalize_idempotent_witness:
  "finalize ref_host ctx_ready world_ready = (Inr (), ctx_unset, world_done)
   \<and> finalize ref_host ctx_unset world_done = (Inr (), ctx_unset, world_done)"
proof -
  have "\<exists>w1. finalize ref_host ctx_ready world_ready
                = (Inr (), ctx_ready\<lparr>resultsid := None, interpid := None\<rparr>, w1)
              \<and> finalize ref_host (ctx_ready\<lparr>resultsid := None, interpid := None\<rparr>) w1
                = (Inr (), ctx_ready\<lparr>resultsid := None, interpid := None\<rparr>, w1)"
    by (rule finalize_idempotent) (erule ref_destroy_not_found, erule ref_decref_not_found)
  then obtain w1 where
    a: "finalize ref_host ctx_ready world_ready
          = (Inr (), ctx_ready\<lparr>resultsid := None, interpid := None\<rparr>, w1)"
    and b: "finalize ref_host (ctx_ready\<lparr>resultsid := None, interpid := None\<rparr>) w1
          = (Inr (), ctx_ready\<lparr>resultsid := None, interpid := None\<rparr>, w1)"
    by blast
  have c: "finalize ref_host ctx_ready world_ready = (Inr (), ctx_unset, world_done)"
    by (simp add: finalize_def ref_destroy_def ref_decref_def ctx_ready_def ctx_unset_def
        world_ready_def world_done_def)
  from a c have "w1 = world_done"
    and "ctx_ready\<lparr>resultsid := None, interpid := None\<rparr> = ctx_unset"
    by simp_all
  with b c show ?thesis by simp
qed

section \<open>initialize\<close>

lemma try_step_fails_body:
  assumes "try_step_fails H n st i self w e self1 w1"
  shows "initialize_body H n st i self w = Some (Inl e, self1, w1)"
  using assms
proof cases
  case (at_incref)
  then show ?thesis by (simp add: initialize_body_def)
next
  case (at_queue_create u wa)
  then show ?thesis by (simp add: initialize_body_def)
next
  case (at_bootstrap u wa q wb)
  then show ?thesis by (simp add: initialize_body_def)
next
  case (at_injection u wa q wb v wc a)
  then show ?thesis by (simp add: initialize_body_def)
next
  case (at_initializer u wa q wb v wc x wd d)
  then show ?thesis by (simp add: initialize_body_def)
qed

text \<open>
  C2.  Take a context whose runtime handle is \<^verbatim>\<open>None\<close> and let the creation of the
  runtime succeed.  Whenever a step of \<open>initialize\<close> raises \<open>e\<close> (\<^verbatim>\<open>incref\<close>, the
  creation of the queue, the bootstrap script, the injection of the shared mapping or
  the initializer task), \<open>initialize\<close> returns by raising, \<open>finalize\<close> has run on the
  context and the state that step left, and the context \<open>initialize\<close> leaves is the
  one \<open>finalize\<close> returned, with both handles \<^verbatim>\<open>None\<close>.  The exception raised is
  \<open>e\<close> when \<open>finalize\<close> returns, and the one of \<open>finalize\<close> when it raises.
\<close>

theorem initialize_failure_finalizes:
  assumes pre: "interpid self = None"
      and cr: "interp_create H True w = (Inr i, w0)"
      and step: "try_step_fails H n st i (self\<lparr>interpid := Some i\<rparr>) w0 e self1 w1"
  shows "\<exists>r self2 w2.
           finalize H self1 w1 = (r, self2, w2)
           \<and> initialize H n st self w
               = Some (Inl (case r of Inl e2 \<Rightarrow> e2 | Inr u \<Rightarrow> e), self2, w2)
           \<and> interpid self2 = None \<and> resultsid self2 = None"
proof -
  from try_step_fails_body [OF step]
  have body: "initialize_body H n st i (self\<lparr>interpid := Some i\<rparr>) w0
                = Some (Inl e, self1, w1)" .
  obtain r self2 w2 where fin: "finalize H self1 w1 = (r, self2, w2)"
    by (cases "finalize H self1 w1") auto
  from pre cr body fin
  have "initialize H n st self w
          = Some (Inl (case r of Inl e2 \<Rightarrow> e2 | Inr u \<Rightarrow> e), self2, w2)"
    by (cases r) (simp_all add: initialize_def)
  moreover from finalize_clears [OF fin]
  have "interpid self2 = None" "resultsid self2 = None" by simp_all
  ultimately show ?thesis using fin by blast
qed

text \<open>
  On the reference host, with the task that raises \<^verbatim>\<open>ValueError("boom")\<close> as
  initializer: the step that fails is the initializer task, \<open>initialize\<close> raises its
  exception, the handles are \<^verbatim>\<open>None\<close>, and the queue and the runtime it had
  created are gone.
\<close>

theorem initialize_failure_finalizes_witness:
  "interpid (ctx_unset\<lparr>initdata := Some ''B''\<rparr>) = None
   \<and> interp_create ref_host True world0 = (Inr 0, world_created)
   \<and> try_step_fails ref_host 1 [] 0 ctx_boom_entered world_created remote_boom
        (ctx_boom_entered\<lparr>resultsid := Some 1\<rparr>) world_ready
   \<and> finalize ref_host (ctx_boom_entered\<lparr>resultsid := Some 1\<rparr>) world_ready
       = (Inr (), ctx_unset\<lparr>initdata := Some ''B''\<rparr>, world_done)
   \<and> initialize ref_host 1 [] (ctx_unset\<lparr>initdata := Some ''B''\<rparr>) world0
       = Some (Inl remote_boom, ctx_unset\<lparr>initdata := Some ''B''\<rparr>, world_done)"
proof -
  have h1: "interpid (ctx_unset\<lparr>initdata := Some ''B''\<rparr>) = None"
    by (simp add: ctx_unset_def)
  have h2: "interp_create ref_host True world0 = (Inr 0, world_created)"
    by (simp add: ref_create_def world0_def world_created_def)
  have s1: "interp_incref ref_host 0 world_created
              = (Inr (), world_created\<lparr>runtimes := [(0, 1)]\<rparr>)"
    by (simp add: ref_incref_def world_created_def)
  have s2: "queue_create ref_host 0 (world_created\<lparr>runtimes := [(0, 1)]\<rparr>)
              = (Inr 1, world_ready)"
    by (simp add: ref_queue_create_def world_created_def world_ready_def)
  have s3: "exec_ctx ref_host (ctx_boom_entered\<lparr>resultsid := Some 1\<rparr>)
              (Bootstrap dunder_name) world_ready = (Inr (), world_ready)"
    by (simp add: exec_ctx_def interp_exec_def run_script_def ref_enter_def
        ctx_boom_entered_def world_ready_def)
  have s4: "(case shared ctx_boom_entered of
               None \<Rightarrow> (Inr (), world_ready)
             | Some a \<Rightarrow>
                 (if store_get [] a \<noteq> []
                  then interp_set_main_attrs ref_host 0 (store_get [] a) True world_ready
                  else (Inr (), world_ready))) = (Inr (), world_ready)"
    by (simp add: ctx_boom_entered_def)
  have s5: "initdata ctx_boom_entered = Some ''B''" and s6: "''B'' \<noteq> []"
    by (simp_all add: ctx_boom_entered_def)
  have s7: "run ref_host 1 (ctx_boom_entered\<lparr>resultsid := Some 1\<rparr>) ''B'' world_ready
              = Some (Inl remote_boom, world_ready)"
    by (simp add: model_defs ref_defs ctx_boom_entered_def)
  have st: "try_step_fails ref_host 1 [] 0 ctx_boom_entered world_created remote_boom
              (ctx_boom_entered\<lparr>resultsid := Some 1\<rparr>) world_ready"
    by (rule try_step_fails.at_initializer [OF s1 s2 s3 s4 s5 s6 s7])
  have eq: "(ctx_unset\<lparr>initdata := Some ''B''\<rparr>)\<lparr>interpid := Some 0\<rparr> = ctx_boom_entered"
    by (simp add: ctx_unset_def ctx_boom_entered_def)
  have fin: "finalize ref_host (ctx_boom_entered\<lparr>resultsid := Some 1\<rparr>) world_ready
       = (Inr (), ctx_unset\<lparr>initdata := Some ''B''\<rparr>, world_done)"
    by (simp add: finalize_def ref_destroy_def ref_decref_def ctx_boom_entered_def
        ctx_unset_def world_ready_def world_done_def)
  from st eq have st': "try_step_fails ref_host 1 [] 0
      ((ctx_unset\<lparr>initdata := Some ''B''\<rparr>)\<lparr>interpid := Some 0\<rparr>) world_created remote_boom
      (ctx_boom_entered\<lparr>resultsid := Some 1\<rparr>) world_ready"
    by simp
  from initialize_failure_finalizes [OF h1 h2 st'] fin
  have "initialize ref_host 1 [] (ctx_unset\<lparr>initdata := Some ''B''\<rparr>) world0
       = Some (Inl remote_boom, ctx_unset\<lparr>initdata := Some ''B''\<rparr>, world_done)"
    by auto
  with h1 h2 st fin show ?thesis by simp
qed

section \<open>The envelopes written by the isolated side\<close>

lemma written_all_refl: "written_all P lg lg"
  by (simp add: written_all_def)

lemma written_all_trans: "written_all P a b \<Longrightarrow> written_all P b c \<Longrightarrow> written_all P a c"
  by (auto simp: written_all_def)

lemma written_all_snoc: "P env \<Longrightarrow> written_all P lg (lg @ [env])"
  by (auto simp: written_all_def)

lemma recording_put:
  "put (recording H) rid env (lg, w) = (r, (lg1, w1)) \<Longrightarrow> lg1 = lg \<or> lg1 = lg @ [env]"
  by (cases rid; cases "queue_put H (the rid) env w"; cases "fst (queue_put H (the rid) env w)")
     (auto simp: put_def recording_def record_put_def)

lemma recording_put_written:
  assumes "P env"
      and "put (recording H) rid env (lg, w) = (r, (lg1, w1))"
  shows "written_all P lg lg1"
proof -
  from recording_put [OF assms(2)] have "lg1 = lg \<or> lg1 = lg @ [env]" .
  then show ?thesis
  proof
    assume "lg1 = lg"
    then show ?thesis by (simp add: written_all_refl)
  next
    assume "lg1 = lg @ [env]"
    with written_all_snoc [of P, OF assms(1)] show ?thesis by simp
  qed
qed

lemma capture_written:
  assumes e: "\<forall>exc. P (PNone, Some exc)"
      and b: "\<forall>x lgb wb. body (lg, w) = (x, (lgb, wb)) \<longrightarrow> written_all P lg lgb"
      and c: "capture_exc (recording H) rid body (lg, w) = (r, (lg1, w1))"
  shows "written_all P lg lg1"
proof -
  obtain x lgb wb where bd: "body (lg, w) = (x, (lgb, wb))"
    by (metis prod.exhaust)
  from b bd have g: "written_all P lg lgb" by blast
  show ?thesis
  proof (cases x)
    case (Inr v)
    with bd c g show ?thesis by (simp add: capture_exc_def)
  next
    case (Inl exc)
    obtain r2 lg2 w2 where p: "put (recording H) rid (PNone, Some exc) (lgb, wb) = (r2, (lg2, w2))"
      by (metis prod.exhaust)
    from e have "P (PNone, Some exc)" by blast
    from recording_put_written [of P, OF this p] have "written_all P lgb lg2" .
    moreover from Inl bd c p have "lg1 = lg2"
      by (cases r2) (auto simp: capture_exc_def)
    ultimately show ?thesis using g written_all_trans by blast
  qed
qed

lemma capture_exc_Inr:
  "capture_exc H rid body s = (Inr x, s1) \<Longrightarrow> body s = (Inr x, s1)"
  by (cases "body s"; cases "fst (body s)")
     (auto simp: capture_exc_def split: prod.splits sum.splits)

lemma recording_call_fn:
  "call_fn (recording H) f a k (lg, w) = (r, (lg1, w1))
     \<Longrightarrow> lg1 = lg \<and> call_fn H f a k w = (r, w1)"
  by (auto simp: recording_def lift_w_def split: prod.splits)

lemma envelope_ok_error: "envelope_ok ret (PNone, Some exc)"
  by (simp add: envelope_ok_def exactly_one_populated_def value_populated_def
      error_populated_def)

lemma envelope_ok_result: "ret res \<Longrightarrow> envelope_ok ret (res, None)"
  by (cases "res = PNone")
     (simp_all add: envelope_ok_def exactly_one_populated_def value_populated_def
        error_populated_def)

lemma call_written:
  assumes "call (recording H) func args kwargs rid (lg, w) = (r, (lg1, w1))"
  shows "written_all (envelope_ok (returned H func args kwargs w)) lg lg1"
proof -
  let ?P = "envelope_ok (returned H func args kwargs w)"
  let ?b1 = "call_fn (recording H) func (py_or args (PTuple [])) (py_or kwargs (PDict []))"
  have e: "\<forall>exc. ?P (PNone, Some exc)" by (simp add: envelope_ok_error)
  obtain x lga wa where c1: "capture_exc (recording H) rid ?b1 (lg, w) = (x, (lga, wa))"
    by (metis prod.exhaust)
  have b1: "\<forall>y lgb wb. ?b1 (lg, w) = (y, (lgb, wb)) \<longrightarrow> written_all ?P lg lgb"
  proof (intro allI impI)
    fix y lgb wb
    assume "?b1 (lg, w) = (y, (lgb, wb))"
    from recording_call_fn [OF this] have "lgb = lg" by simp
    then show "written_all ?P lg lgb" by (simp add: written_all_refl)
  qed
  have g1: "written_all ?P lg lga" by (rule capture_written [OF e b1 c1])
  show ?thesis
  proof (cases x)
    case (Inl e)
    with assms c1 g1 show ?thesis by (simp add: call_def)
  next
    case (Inr res)
    with c1 have "capture_exc (recording H) rid ?b1 (lg, w) = (Inr res, (lga, wa))" by simp
    then have "?b1 (lg, w) = (Inr res, (lga, wa))" by (rule capture_exc_Inr)
    from recording_call_fn [OF this] have "returned H func args kwargs w res"
      by (simp add: returned_def)
    then have ok: "?P (res, None)" by (rule envelope_ok_result)
    from Inr assms c1 have c2:
      "capture_exc (recording H) rid (put (recording H) rid (res, None)) (lga, wa)
         = (r, (lg1, w1))"
      by (simp add: call_def)
    have b2: "\<forall>y lgb wb. put (recording H) rid (res, None) (lga, wa) = (y, (lgb, wb))
                \<longrightarrow> written_all ?P lga lgb"
    proof (intro allI impI)
      fix y lgb wb
      assume "put (recording H) rid (res, None) (lga, wa) = (y, (lgb, wb))"
      from recording_put_written [of ?P, OF ok this] show "written_all ?P lga lgb" .
    qed
    from capture_written [OF e b2 c2] g1 show ?thesis using written_all_trans by blast
  qed
qed

lemma call_pickled_written:
  assumes "call_pickled (recording H) pickled rid (lg, w) = (r, (lg1, w1))"
  shows "written_all (envelope_ok (task_returned H pickled w)) lg lg1"
proof -
  let ?P = "envelope_ok (task_returned H pickled w)"
  let ?b = "\<lambda>w0. (pickle_loads (recording H) pickled, w0)"
  have e: "\<forall>exc. ?P (PNone, Some exc)" by (simp add: envelope_ok_error)
  obtain x lga wa where c1: "capture_exc (recording H) rid ?b (lg, w) = (x, (lga, wa))"
    by (metis prod.exhaust)
  have b1: "\<forall>y lgb wb. ?b (lg, w) = (y, (lgb, wb)) \<longrightarrow> written_all ?P lg lgb"
    by (auto simp: written_all_refl)
  have g1: "written_all ?P lg lga" by (rule capture_written [OF e b1 c1])
  show ?thesis
  proof (cases x)
    case (Inl e)
    with assms c1 g1 show ?thesis by (simp add: call_pickled_def)
  next
    case (Inr t)
    obtain fn args kwargs where t: "t = (fn, args, kwargs)" by (metis prod.exhaust)
    from Inr c1 have "capture_exc (recording H) rid ?b (lg, w) = (Inr t, (lga, wa))" by simp
    then have "?b (lg, w) = (Inr t, (lga, wa))" by (rule capture_exc_Inr)
    with t have ld: "pickle_loads H pickled = Inr (fn, args, kwargs)" "lga = lg" "wa = w"
      by simp_all
    from t Inr assms c1 ld
    have "call (recording H) fn args kwargs rid (lg, w) = (r, (lg1, w1))"
      by (simp add: call_pickled_def)
    from call_written [OF this]
    have "written_all (envelope_ok (returned H fn args kwargs w)) lg lg1" .
    moreover from ld have "task_returned H pickled w = returned H fn args kwargs w"
      by (simp add: task_returned_def fun_eq_iff)
    ultimately show ?thesis by simp
  qed
qed


lemma written_all_mono:
  "\<forall>env. P env \<longrightarrow> Q env \<Longrightarrow> written_all P a b \<Longrightarrow> written_all Q a b"
  by (auto simp: written_all_def)

lemma envelope_ok_error_alone:
  "envelope_ok ret env \<Longrightarrow> error_populated env \<Longrightarrow> fst env = PNone"
  by (auto simp: envelope_ok_def exactly_one_populated_def value_populated_def
      error_populated_def)

lemma recording_enter:
  "interp_enter (recording H) i b (lg, w) = (r, (lg1, w1)) \<Longrightarrow> lg1 = lg"
  by (auto simp: recording_def lift_w_def split: prod.splits)

lemma recording_leave:
  "interp_leave (recording H) i (lg, w) = (lg, interp_leave H i w)"
  by (simp add: recording_def)

section \<open>The envelopes one execution writes\<close>

text \<open>
  When the dispatch returns instead of raising, and so when the execution of the
  dispatch script reports no uncaught error, it has written one envelope, and that
  envelope holds no error.  Whatever the execution reports, an envelope it writes with
  the error field populated has \<^verbatim>\<open>None\<close> in its value field.
\<close>

lemma recording_put_Inr:
  "put (recording H) rid env (lg, w) = (Inr u, (lg1, w1)) \<Longrightarrow> lg1 = lg @ [env]"
  by (cases rid; cases "queue_put H (the rid) env w"; cases "fst (queue_put H (the rid) env w)")
     (auto simp: put_def recording_def record_put_def)

lemma recording_call_fn_log:
  "call_fn (recording H) f a k (lg, w) = (r, (lg1, w1)) \<Longrightarrow> lg1 = lg"
  by (auto simp: recording_def lift_w_def split: prod.splits)

lemma call_returns_one_value_envelope:
  assumes "call (recording H) func args kwargs rid (lg, w) = (Inr u, (lg1, w1))"
  shows "\<exists>res. lg1 = lg @ [(res, None)]"
proof -
  let ?b = "call_fn (recording H) func (py_or args (PTuple [])) (py_or kwargs (PDict []))"
  obtain x lga wa where c1: "capture_exc (recording H) rid ?b (lg, w) = (x, (lga, wa))"
    by (metis prod.exhaust)
  show ?thesis
  proof (cases x)
    case (Inl e)
    with assms c1 show ?thesis by (simp add: call_def)
  next
    case (Inr res)
    with c1 have "capture_exc (recording H) rid ?b (lg, w) = (Inr res, (lga, wa))" by simp
    then have "?b (lg, w) = (Inr res, (lga, wa))" by (rule capture_exc_Inr)
    then have l: "lga = lg" by (rule recording_call_fn_log)
    from Inr assms c1 have
      "capture_exc (recording H) rid (put (recording H) rid (res, None)) (lga, wa)
         = (Inr u, (lg1, w1))"
      by (simp add: call_def)
    then have "put (recording H) rid (res, None) (lga, wa) = (Inr u, (lg1, w1))"
      by (rule capture_exc_Inr)
    from recording_put_Inr [OF this] l show ?thesis by simp
  qed
qed

lemma call_pickled_returns_one_value_envelope:
  assumes "call_pickled (recording H) pickled rid (lg, w) = (Inr u, (lg1, w1))"
  shows "\<exists>res. lg1 = lg @ [(res, None)]"
proof -
  let ?b = "\<lambda>w0. (pickle_loads (recording H) pickled, w0)"
  obtain x lga wa where c1: "capture_exc (recording H) rid ?b (lg, w) = (x, (lga, wa))"
    by (metis prod.exhaust)
  show ?thesis
  proof (cases x)
    case (Inl e)
    with assms c1 show ?thesis by (simp add: call_pickled_def)
  next
    case (Inr t)
    with c1 have "capture_exc (recording H) rid ?b (lg, w) = (Inr t, (lga, wa))" by simp
    then have "?b (lg, w) = (Inr t, (lga, wa))" by (rule capture_exc_Inr)
    then have l: "lga = lg" by simp
    obtain fn args kwargs where t: "t = (fn, args, kwargs)" by (metis prod.exhaust)
    with Inr assms c1 have "call (recording H) fn args kwargs rid (lga, wa) = (Inr u, (lg1, w1))"
      by (simp add: call_pickled_def)
    from call_returns_one_value_envelope [OF this] l show ?thesis by simp
  qed
qed


lemma exec_ctx_no_error_one_value_envelope:
  assumes "exec_ctx (recording H) self (CallPickled data rid) (lg, w) = (Inr (), (lg1, w1))"
  shows "\<exists>res. lg1 = lg @ [(res, None)]"
proof -
  from assms obtain i where i: "interpid self = Some i"
    by (cases "interpid self") (auto simp: exec_ctx_def)
  obtain r0 lg0 w0 where en: "interp_enter (recording H) i True (lg, w) = (r0, (lg0, w0))"
    by (metis prod.exhaust)
  then have l0: "lg0 = lg"
    by (auto simp: recording_def lift_w_def split: prod.splits)
  obtain r2 lg2 w2 where cp: "call_pickled (recording H) data rid (lg0, w0) = (r2, (lg2, w2))"
    by (metis prod.exhaust)
  have lv: "interp_leave (recording H) i (lg2, w2) = (lg2, interp_leave H i w2)"
    by (simp add: recording_def)
  show ?thesis
  proof (cases r0)
    case (Inl e)
    with assms i en show ?thesis by (simp add: exec_ctx_def interp_exec_def)
  next
    case (Inr u0)
    show ?thesis
    proof (cases r2)
      case (Inl e)
      with assms i en Inr cp show ?thesis
        by (cases "ExecutionFailed_init (exc_snapshot (recording H) e)")
           (simp_all add: exec_ctx_def interp_exec_def run_script_def)
    next
      case r2: (Inr u2)
      with assms i en Inr cp lv have "lg1 = lg2"
        by (simp add: exec_ctx_def interp_exec_def run_script_def)
      moreover from cp r2
      have "call_pickled (recording H) data rid (lg0, w0) = (Inr u2, (lg2, w2))" by simp
      then have "\<exists>res. lg2 = lg0 @ [(res, None)]"
        by (rule call_pickled_returns_one_value_envelope)
      ultimately show ?thesis using l0 by simp
    qed
  qed
qed

lemma exec_ctx_written:
  assumes "exec_ctx (recording H) self (CallPickled data rid) (lg, w) = (r, (lg1, w1))"
  shows "written_all (\<lambda>env. error_populated env \<longrightarrow> fst env = PNone) lg lg1"
proof (cases "interpid self")
  case None
  with assms show ?thesis by (simp add: exec_ctx_def written_all_refl)
next
  case (Some i)
  obtain r0 lg0 w0 where en: "interp_enter (recording H) i True (lg, w) = (r0, (lg0, w0))"
    by (metis prod.exhaust)
  from recording_enter [OF en] have l0: "lg0 = lg" .
  show ?thesis
  proof (cases r0)
    case (Inl e)
    with assms Some en l0 show ?thesis
      by (simp add: exec_ctx_def interp_exec_def written_all_refl)
  next
    case (Inr u0)
    obtain r2 lg2 w2 where cp: "call_pickled (recording H) data rid (lg0, w0) = (r2, (lg2, w2))"
      by (metis prod.exhaust)
    from call_pickled_written [OF cp]
    have "written_all (envelope_ok (task_returned H data w0)) lg0 lg2" .
    then have g: "written_all (\<lambda>env. error_populated env \<longrightarrow> fst env = PNone) lg lg2"
      using l0 envelope_ok_error_alone
      by (auto elim!: written_all_mono [rotated])
    have "lg1 = lg2"
    proof (cases r2)
      case (Inl e)
      with assms Some en Inr cp show ?thesis
        by (cases "ExecutionFailed_init (exc_snapshot (recording H) e)")
           (simp_all add: exec_ctx_def interp_exec_def run_script_def recording_leave)
    next
      case r2: (Inr u2)
      with assms Some en Inr cp show ?thesis
        by (simp add: exec_ctx_def interp_exec_def run_script_def recording_leave)
    qed
    with g show ?thesis by simp
  qed
qed

section \<open>run\<close>

text \<open>
  C1.  Take an initialized context (runtime \<open>i\<close>, results queue \<open>q\<close>) and a task
  \<open>(fn, args, kwargs)\<close> whose callable is not a script and which is serializable:
  \<^verbatim>\<open>pickle.dumps\<close> gives the blob \<open>data\<close> for it, and \<^verbatim>\<open>pickle.loads\<close> in the
  isolated side gives the task back from \<open>data\<close>.  Let the runtime be entered, let the
  call \<^verbatim>\<open>fn(*args, **kwargs)\<close> return \<open>v\<close> in the isolated side, and let the queue
  accept the envelope and hand it back.  Then \<open>resolve_task\<close> encodes the task as a
  blob, and \<open>run\<close> on that blob returns, with one attempt of the retrieval loop or
  more, and the value it returns is \<open>v\<close>.
\<close>

theorem run_returns_call_value:
  assumes "interpid self = Some i"
      and "resultsid self = Some q"
      and "\<not> is_str fn"
      and "pickle_dumps H (fn, args, kwargs) = Inr data"
      and "pickle_loads H data = Inr (fn, args, kwargs)"
      and "interp_enter H i True w = (Inr (), w1)"
      and "call_fn H fn (py_or args (PTuple [])) (py_or kwargs (PDict [])) w1 = (Inr v, w2)"
      and "queue_put H q (v, None) w2 = (Inr (), w3)"
      and "queue_get H q (interp_leave H i w3) = (Inr ((v, None), None), w4)"
  shows "\<exists>blob. resolve_task H fn args kwargs = Inr blob
           \<and> run H (Suc n) self blob w = Some (Inr v, w4)"
  using assms
  by (simp add: resolve_task_def run_def exec_ctx_def interp_exec_def run_script_def
      call_pickled_def call_def capture_exc_def put_def get_def run_result_def)

text \<open>
  On the reference host the task \<^verbatim>\<open>operator.add(2, 3)\<close> is encoded as \<^verbatim>\<open>b"A"\<close>
  and \<open>run\<close> returns 5, leaving the queue empty again.
\<close>

theorem run_returns_call_value_witness:
  "interpid ctx_ready = Some 0 \<and> resultsid ctx_ready = Some 1
   \<and> \<not> is_str (PObj ''operator.add'')
   \<and> pickle_dumps ref_host (PObj ''operator.add'', PTuple [PInt 2, PInt 3], PDict []) = Inr ''A''
   \<and> pickle_loads ref_host ''A'' = Inr (PObj ''operator.add'', PTuple [PInt 2, PInt 3], PDict [])
   \<and> call_fn ref_host (PObj ''operator.add'') (PTuple [PInt 2, PInt 3]) (PDict []) world_ready
        = (Inr (PInt 5), world_ready)
   \<and> resolve_task ref_host (PObj ''operator.add'') (PTuple [PInt 2, PInt 3]) (PDict []) = Inr ''A''
   \<and> run ref_host (Suc 0) ctx_ready ''A'' world_ready = Some (Inr (PInt 5), world_ready)"
proof -
  have h1: "interpid ctx_ready = Some 0" and h2: "resultsid ctx_ready = Some 1"
    by (simp_all add: ctx_ready_def)
  have h3: "\<not> is_str (PObj ''operator.add'')" by simp
  have h4: "pickle_dumps ref_host (PObj ''operator.add'', PTuple [PInt 2, PInt 3], PDict [])
              = Inr ''A''"
    by (simp add: ref_dumps_def task_add_def)
  have h5: "pickle_loads ref_host ''A''
              = Inr (PObj ''operator.add'', PTuple [PInt 2, PInt 3], PDict [])"
    by (simp add: ref_loads_def task_add_def)
  have h6: "interp_enter ref_host 0 True world_ready = (Inr (), world_ready)"
    by (simp add: ref_enter_def world_ready_def)
  have h7: "call_fn ref_host (PObj ''operator.add'') (py_or (PTuple [PInt 2, PInt 3]) (PTuple []))
              (py_or (PDict []) (PDict [])) world_ready = (Inr (PInt 5), world_ready)"
    by (simp add: ref_call_def py_or_def)
  have h8: "queue_put ref_host 1 (PInt 5, None) world_ready
              = (Inr (), world_ready\<lparr>queues := [(1, [(PInt 5, None)])]\<rparr>)"
    by (simp add: ref_put_def world_ready_def)
  have h9: "queue_get ref_host 1
              (interp_leave ref_host 0 (world_ready\<lparr>queues := [(1, [(PInt 5, None)])]\<rparr>))
              = (Inr ((PInt 5, None), None), world_ready)"
    by (simp add: ref_get_def world_ready_def)
  have r: "resolve_task ref_host (PObj ''operator.add'') (PTuple [PInt 2, PInt 3]) (PDict [])
             = Inr ''A''"
    by (simp add: resolve_task_def ref_dumps_def task_add_def)
  from run_returns_call_value [OF h1 h2 h3 h4 h5 h6 h7 h8 h9, of 0] r
  have "run ref_host (Suc 0) ctx_ready ''A'' world_ready = Some (Inr (PInt 5), world_ready)"
    by auto
  with h1 h2 h3 h4 h5 h7 r show ?thesis by (simp add: py_or_def)
qed

text \<open>
  C3, as the claim states it, fails in its example: the exception the caller of \<open>run\<close>
  receives for a task that raises \<^verbatim>\<open>ValueError("boom")\<close> is that
  \<^verbatim>\<open>ValueError\<close>, and its message is "boom", which does not contain "ValueError".
\<close>

theorem remote_message_counterexample:
  "run ref_host (Suc 0) ctx_ready ''B'' world_ready = Some (Inl remote_boom, world_ready)
   \<and> BaseException_str ref_host remote_boom = ''boom''
   \<and> \<not> contains_str (BaseException_str ref_host remote_boom) ''ValueError''"
proof -
  have "run ref_host (Suc 0) ctx_ready ''B'' world_ready = Some (Inl remote_boom, world_ready)"
    by (simp add: model_defs ref_defs)
  moreover have "BaseException_str ref_host remote_boom = ''boom''"
    by (simp add: BaseException_str_def remote_boom_def)
  ultimately show ?thesis by simp
qed

text \<open>
  C3, amended.  First part: take a call of \<open>run\<close> that goes on to the retrieval loop
  (the execution of the dispatch script reported no uncaught error, or reported one as
  an \<^verbatim>\<open>ExecutionFailed\<close>) and retrieves, with no \<^verbatim>\<open>unboundop\<close>, an envelope
  \<open>(res, exc)\<close> that this execution wrote.  When the error field holds an exception
  \<open>x\<close>, the execution did report an \<^verbatim>\<open>ExecutionFailed\<close> \<open>wrapper\<close>, and \<open>run\<close>
  raises \<open>x\<close>, with its class and arguments, and \<open>wrapper\<close> as its cause.  When the
  error field is \<^verbatim>\<open>None\<close>, \<open>run\<close> returns the value field.

  Second part: on an initialized context, a task whose callable raises
  \<^verbatim>\<open>ValueError(m)\<close> in the isolated side, the queue accepting the envelope and
  handing it back, makes \<open>run\<close> raise an exception of class \<^verbatim>\<open>ValueError\<close> whose
  message is \<open>m\<close> and whose cause is the \<^verbatim>\<open>ExecutionFailed\<close> built from the
  descriptor of the uncaught exception.
\<close>

theorem run_raises_remote_exception:
  "(exec_ctx (recording H) self (CallPickled data (resultsid self)) (lg, w) = (r, (lgx, wx))
      \<and> (case r of Inl e \<Rightarrow> isinstance e ''ExecutionFailed'' | Inr u \<Rightarrow> True)
      \<and> get_result (recording H) n (resultsid self) (lgx, wx)
            = Some (Inr ((res, exc), None), sx)
      \<and> (res, exc) \<in> set (drop (length lg) lgx)
    \<longrightarrow> (\<forall>x. exc = Some x
            \<longrightarrow> (\<exists>wrapper. r = Inl wrapper \<and> isinstance wrapper ''ExecutionFailed''
                  \<and> run (recording H) n self data (lg, w)
                        = Some (Inl (raise_from x wrapper), sx)
                  \<and> exn_cause (raise_from x wrapper) = Some wrapper
                  \<and> exn_mro (raise_from x wrapper) = exn_mro x
                  \<and> exn_args (raise_from x wrapper) = exn_args x))
        \<and> (exc = None \<longrightarrow> run (recording H) n self data (lg, w) = Some (Inr res, sx)))
   \<and> (interpid selfb = Some i \<and> resultsid selfb = Some q
      \<and> pickle_loads G blob = Inr (fn, args, kwargs)
      \<and> interp_enter G i True v = (Inr (), va)
      \<and> call_fn G fn (py_or args (PTuple [])) (py_or kwargs (PDict [])) va
            = (Inl (ValueError m), vb)
      \<and> queue_put G q (PNone, Some (ValueError m)) vb = (Inr (), vc)
      \<and> ExecutionFailed_init (exc_snapshot G (ValueError m)) = Inr wr
      \<and> queue_get G q (interp_leave G i vc) = (Inr ((PNone, Some (ValueError m)), None), vd)
    \<longrightarrow> run G (Suc k) selfb blob v = Some (Inl (raise_from (ValueError m) wr), vd)
        \<and> isinstance (raise_from (ValueError m) wr) ''ValueError''
        \<and> BaseException_str G (raise_from (ValueError m) wr) = m
        \<and> exn_cause (raise_from (ValueError m) wr) = Some wr
        \<and> isinstance wr ''ExecutionFailed'')"
proof (intro conjI impI)
  assume h: "exec_ctx (recording H) self (CallPickled data (resultsid self)) (lg, w)
               = (r, (lgx, wx))
      \<and> (case r of Inl e \<Rightarrow> isinstance e ''ExecutionFailed'' | Inr u \<Rightarrow> True)
      \<and> get_result (recording H) n (resultsid self) (lgx, wx)
            = Some (Inr ((res, exc), None), sx)
      \<and> (res, exc) \<in> set (drop (length lg) lgx)"
  then have ex: "exec_ctx (recording H) self (CallPickled data (resultsid self)) (lg, w)
               = (r, (lgx, wx))"
    and wr: "case r of Inl e \<Rightarrow> isinstance e ''ExecutionFailed'' | Inr u \<Rightarrow> True"
    and gt: "get_result (recording H) n (resultsid self) (lgx, wx)
            = Some (Inr ((res, exc), None), sx)"
    and own: "(res, exc) \<in> set (drop (length lg) lgx)"
    by simp_all
  from exec_ctx_written [OF ex] own
  have val: "error_populated (res, exc) \<longrightarrow> res = PNone"
    by (auto simp: written_all_def)
  show "\<forall>x. exc = Some x
            \<longrightarrow> (\<exists>wrapper. r = Inl wrapper \<and> isinstance wrapper ''ExecutionFailed''
                  \<and> run (recording H) n self data (lg, w)
                        = Some (Inl (raise_from x wrapper), sx)
                  \<and> exn_cause (raise_from x wrapper) = Some wrapper
                  \<and> exn_mro (raise_from x wrapper) = exn_mro x
                  \<and> exn_args (raise_from x wrapper) = exn_args x)"
  proof (intro allI impI)
    fix x
    assume x: "exc = Some x"
    with val have rn: "res = PNone" by (simp add: error_populated_def)
    have "r \<noteq> Inr ()"
    proof
      assume "r = Inr ()"
      with ex have "exec_ctx (recording H) self (CallPickled data (resultsid self)) (lg, w)
                      = (Inr (), (lgx, wx))" by simp
      then have "\<exists>res'. lgx = lg @ [(res', None)]"
        by (rule exec_ctx_no_error_one_value_envelope)
      with own x show False by auto
    qed
    then obtain wrapper where rw: "r = Inl wrapper" by (cases r) auto
    with wr have iw: "isinstance wrapper ''ExecutionFailed''" by simp
    from ex gt rw iw x rn
    have "run (recording H) n self data (lg, w) = Some (Inl (raise_from x wrapper), sx)"
      by (simp add: run_def run_result_def)
    with rw iw show "\<exists>wrapper. r = Inl wrapper \<and> isinstance wrapper ''ExecutionFailed''
                  \<and> run (recording H) n self data (lg, w)
                        = Some (Inl (raise_from x wrapper), sx)
                  \<and> exn_cause (raise_from x wrapper) = Some wrapper
                  \<and> exn_mro (raise_from x wrapper) = exn_mro x
                  \<and> exn_args (raise_from x wrapper) = exn_args x"
      by (simp add: raise_from_def)
  qed
  show "run (recording H) n self data (lg, w) = Some (Inr res, sx)" if "exc = None"
    using that ex wr gt by (cases r) (simp_all add: run_def run_result_def)
next
  assume h: "interpid selfb = Some i \<and> resultsid selfb = Some q
      \<and> pickle_loads G blob = Inr (fn, args, kwargs)
      \<and> interp_enter G i True v = (Inr (), va)
      \<and> call_fn G fn (py_or args (PTuple [])) (py_or kwargs (PDict [])) va
            = (Inl (ValueError m), vb)
      \<and> queue_put G q (PNone, Some (ValueError m)) vb = (Inr (), vc)
      \<and> ExecutionFailed_init (exc_snapshot G (ValueError m)) = Inr wr
      \<and> queue_get G q (interp_leave G i vc) = (Inr ((PNone, Some (ValueError m)), None), vd)"
  then have iw: "isinstance wr ''ExecutionFailed''"
    by (auto simp: ExecutionFailed_init_def ExecutionFailed_new_def isinstance_def
        split: if_splits option.splits)
  from h iw show "run G (Suc k) selfb blob v = Some (Inl (raise_from (ValueError m) wr), vd)"
    by (simp add: run_def exec_ctx_def interp_exec_def run_script_def call_pickled_def
        call_def capture_exc_def put_def get_def run_result_def)
  show "isinstance (raise_from (ValueError m) wr) ''ValueError''"
    by (simp add: raise_from_def ValueError_def isinstance_def)
  show "BaseException_str G (raise_from (ValueError m) wr) = m"
    by (simp add: raise_from_def ValueError_def BaseException_str_def)
  show "exn_cause (raise_from (ValueError m) wr) = Some wr"
    by (simp add: raise_from_def)
  from iw show "isinstance wr ''ExecutionFailed''" .
qed

text \<open>
  On the reference host the task that raises \<^verbatim>\<open>ValueError("boom")\<close> writes the
  envelope \<^verbatim>\<open>(None, ValueError("boom"))\<close>, the execution reports
  \<^verbatim>\<open>ExecutionFailed\<close>, and the caller of \<open>run\<close> receives the \<^verbatim>\<open>ValueError\<close>
  with the message "boom", whose cause is that \<^verbatim>\<open>ExecutionFailed\<close>.
\<close>

theorem run_raises_remote_exception_witness:
  "exec_ctx (recording ref_host) ctx_ready (CallPickled ''B'' (resultsid ctx_ready))
      ([], world_ready)
     = (Inl boom_wrapper, ([(PNone, Some (ValueError ''boom''))], world_boom))
   \<and> isinstance boom_wrapper ''ExecutionFailed''
   \<and> get_result (recording ref_host) (Suc 0) (resultsid ctx_ready)
        ([(PNone, Some (ValueError ''boom''))], world_boom)
       = Some (Inr ((PNone, Some (ValueError ''boom'')), None),
               ([(PNone, Some (ValueError ''boom''))], world_ready))
   \<and> (PNone, Some (ValueError ''boom''))
       \<in> set (drop (length ([] :: envelope list)) [(PNone, Some (ValueError ''boom''))])
   \<and> run (recording ref_host) (Suc 0) ctx_ready ''B'' ([], world_ready)
       = Some (Inl (raise_from (ValueError ''boom'') boom_wrapper),
               ([(PNone, Some (ValueError ''boom''))], world_ready))
   \<and> interpid ctx_ready = Some 0 \<and> resultsid ctx_ready = Some 1
   \<and> pickle_loads ref_host ''B'' = Inr (PObj ''tasks.boom'', PTuple [], PDict [])
   \<and> call_fn ref_host (PObj ''tasks.boom'') (PTuple []) (PDict []) world_ready
       = (Inl (ValueError ''boom''), world_ready)
   \<and> ExecutionFailed_init (exc_snapshot ref_host (ValueError ''boom'')) = Inr boom_wrapper
   \<and> run ref_host (Suc 0) ctx_ready ''B'' world_ready
       = Some (Inl (raise_from (ValueError ''boom'') boom_wrapper), world_ready)
   \<and> isinstance (raise_from (ValueError ''boom'') boom_wrapper) ''ValueError''
   \<and> BaseException_str ref_host (raise_from (ValueError ''boom'') boom_wrapper) = ''boom''
   \<and> exn_cause (raise_from (ValueError ''boom'') boom_wrapper) = Some boom_wrapper"
proof -
  let ?env = "(PNone, Some (ValueError ''boom''))"
  have ex: "exec_ctx (recording ref_host) ctx_ready (CallPickled ''B'' (resultsid ctx_ready))
      ([], world_ready) = (Inl boom_wrapper, ([?env], world_boom))"
    by (simp add: model_defs ref_defs lift_w_def record_put_def world_boom_def)
  have iw: "isinstance boom_wrapper ''ExecutionFailed''"
    by (simp add: boom_wrapper_def ExecutionFailed_new_def isinstance_def)
  have wr: "case (Inl boom_wrapper :: exn + unit) of
              Inl e \<Rightarrow> isinstance e ''ExecutionFailed'' | Inr u \<Rightarrow> True"
    using iw by simp
  have gt: "get_result (recording ref_host) (Suc 0) (resultsid ctx_ready) ([?env], world_boom)
       = Some (Inr (?env, None), ([?env], world_ready))"
    by (simp add: get_def lift_w_def ref_get_def ctx_ready_def world_ready_def world_boom_def)
  have own: "?env \<in> set (drop (length ([] :: envelope list)) [?env])" by simp
  note pre1 = conjI [OF ex conjI [OF wr conjI [OF gt own]]]
  note part1 = run_raises_remote_exception [where H = ref_host and self = ctx_ready
      and data = "''B''" and lg = "[]" and w = world_ready and r = "Inl boom_wrapper"
      and lgx = "[?env]" and wx = world_boom and n = "Suc 0" and res = PNone
      and exc = "Some (ValueError ''boom'')" and sx = "([?env], world_ready)",
      THEN conjunct1, THEN mp, OF pre1, THEN conjunct1, THEN spec, THEN mp, OF refl]
  from part1 have rn1: "run (recording ref_host) (Suc 0) ctx_ready ''B'' ([], world_ready)
       = Some (Inl (raise_from (ValueError ''boom'') boom_wrapper), ([?env], world_ready))"
    by auto
  have b1: "interpid ctx_ready = Some 0" and b2: "resultsid ctx_ready = Some 1"
    by (simp_all add: ctx_ready_def)
  have b3: "pickle_loads ref_host ''B'' = Inr (PObj ''tasks.boom'', PTuple [], PDict [])"
    by (simp add: ref_loads_def task_boom_def)
  have b4: "interp_enter ref_host 0 True world_ready = (Inr (), world_ready)"
    by (simp add: ref_enter_def world_ready_def)
  have b5: "call_fn ref_host (PObj ''tasks.boom'') (py_or (PTuple []) (PTuple []))
              (py_or (PDict []) (PDict [])) world_ready = (Inl (ValueError ''boom''), world_ready)"
    by (simp add: ref_call_def py_or_def)
  have b6: "queue_put ref_host 1 ?env world_ready = (Inr (), world_boom)"
    by (simp add: ref_put_def world_ready_def world_boom_def)
  have b7: "ExecutionFailed_init (exc_snapshot ref_host (ValueError ''boom'')) = Inr boom_wrapper"
    by (simp add: ExecutionFailed_init_def str_truthy_def ref_snapshot_def ref_str_def
        ValueError_def boom_wrapper_def)
  have b8: "queue_get ref_host 1 (interp_leave ref_host 0 world_boom)
              = (Inr (?env, None), world_ready)"
    by (simp add: ref_get_def world_ready_def world_boom_def)
  note pre2 = conjI [OF b1 conjI [OF b2 conjI [OF b3 conjI [OF b4 conjI [OF b5
      conjI [OF b6 conjI [OF b7 b8]]]]]]]
  note part2 = run_raises_remote_exception [where selfb = ctx_ready and i = 0 and q = 1
      and G = ref_host and blob = "''B''" and fn = "PObj ''tasks.boom''"
      and args = "PTuple []" and kwargs = "PDict []" and v = world_ready and va = world_ready
      and vb = world_ready and vc = world_boom and m = "''boom''" and wr = boom_wrapper
      and vd = world_ready and k = 0, THEN conjunct2, THEN mp, OF pre2]
  from part2 have rn2: "run ref_host (Suc 0) ctx_ready ''B'' world_ready
       = Some (Inl (raise_from (ValueError ''boom'') boom_wrapper), world_ready)"
    and c1: "isinstance (raise_from (ValueError ''boom'') boom_wrapper) ''ValueError''"
    and c2: "BaseException_str ref_host (raise_from (ValueError ''boom'') boom_wrapper) = ''boom''"
    and c3: "exn_cause (raise_from (ValueError ''boom'') boom_wrapper) = Some boom_wrapper"
    by (rule conjunct1, rule conjunct2 [THEN conjunct1],
        rule conjunct2 [THEN conjunct2, THEN conjunct1],
        rule conjunct2 [THEN conjunct2, THEN conjunct2, THEN conjunct1])
  have b5': "call_fn ref_host (PObj ''tasks.boom'') (PTuple []) (PDict []) world_ready
       = (Inl (ValueError ''boom''), world_ready)"
    using b5 by (simp add: py_or_def)
  from ex iw gt own rn1 b1 b2 b3 b5' b7 rn2 c1 c2 c3 show ?thesis by simp
qed

section \<open>Which envelopes are written\<close>

lemma recording_put_Inr_eq:
  "queue_put H q env w = (Inr (), wb)
     \<Longrightarrow> put (recording H) (Some q) env (lg, w) = (Inr (), (lg @ [env], wb))"
  by (simp add: put_def record_put_def)

text \<open>
  C4, as the claim states it, fails: a task whose callable returns \<^verbatim>\<open>None\<close> makes
  \<^verbatim>\<open>_call\<close> write the envelope \<^verbatim>\<open>(None, None)\<close>, in which neither field is
  populated.  On the reference host, the task \<^verbatim>\<open>b"N"\<close> is such a task.
\<close>

theorem envelope_exactly_one_counterexample:
  "fst (snd (call_pickled (recording ref_host) ''N'' (Some 1) ([], world_ready)))
     = [(PNone, None)]
   \<and> \<not> exactly_one_populated (PNone, None)"
  by (simp add: call_pickled_def call_def capture_exc_def put_def lift_w_def record_put_def
      ref_defs py_or_def exactly_one_populated_def value_populated_def error_populated_def)

text \<open>
  C4, amended.  Whatever the host, the task and the handle, every envelope that
  \<^verbatim>\<open>_call_pickled\<close> or \<^verbatim>\<open>_call\<close> (with \<^verbatim>\<open>_capture_exc\<close> inside them)
  writes to the queue has exactly one field populated, holding an exception or the
  value the callable returned, or is \<^verbatim>\<open>(None, None)\<close> and the callable returned
  \<^verbatim>\<open>None\<close>; \<^verbatim>\<open>_send_script_result\<close> writes nothing but \<^verbatim>\<open>(None, None)\<close>.
  \<^verbatim>\<open>_capture_exc\<close> writes \<^verbatim>\<open>(None, exc)\<close> for the exception \<open>exc\<close> of its body
  when the queue accepts it.  When the callable returns \<^verbatim>\<open>None\<close> and the queue
  accepts the envelope, \<^verbatim>\<open>_call\<close> writes \<^verbatim>\<open>(None, None)\<close>, and so does
  \<^verbatim>\<open>_send_script_result\<close>.
\<close>

theorem envelope_one_populated_or_none:
  "(call_pickled (recording H) pickled rid (lg, w) = (r, (lgx, wx))
      \<longrightarrow> (\<exists>new. lgx = lg @ new
            \<and> (\<forall>env\<in>set new. envelope_ok (task_returned H pickled w) env)))
   \<and> (call (recording H) func args kwargs rid (lg, w) = (r, (lgx, wx))
      \<longrightarrow> (\<exists>new. lgx = lg @ new
            \<and> (\<forall>env\<in>set new. envelope_ok (returned H func args kwargs w) env)))
   \<and> (send_script_result (recording H) rid (lg, w) = (r, (lgx, wx))
      \<longrightarrow> lgx = lg \<or> lgx = lg @ [(PNone, None)])
   \<and> (body (lg, w) = (Inl exc, (lgb, wb))
        \<and> queue_put H q (PNone, Some exc) wb = (Inr (), wc)
      \<longrightarrow> capture_exc (recording H) (Some q) body (lg, w)
            = (Inl exc, (lgb @ [(PNone, Some exc)], wc)))
   \<and> (call_fn H func (py_or args (PTuple [])) (py_or kwargs (PDict [])) w = (Inr PNone, wa)
        \<and> queue_put H q (PNone, None) wa = (Inr (), wd)
      \<longrightarrow> call (recording H) func args kwargs (Some q) (lg, w)
            = (Inr (), (lg @ [(PNone, None)], wd)))
   \<and> (queue_put H q (PNone, None) w = (Inr (), we)
      \<longrightarrow> send_script_result (recording H) (Some q) (lg, w)
            = (Inr (), (lg @ [(PNone, None)], we)))"
proof (intro conjI impI)
  assume "call_pickled (recording H) pickled rid (lg, w) = (r, (lgx, wx))"
  from call_pickled_written [OF this]
  show "\<exists>new. lgx = lg @ new \<and> (\<forall>env\<in>set new. envelope_ok (task_returned H pickled w) env)"
    by (simp add: written_all_def)
next
  assume "call (recording H) func args kwargs rid (lg, w) = (r, (lgx, wx))"
  from call_written [OF this]
  show "\<exists>new. lgx = lg @ new
          \<and> (\<forall>env\<in>set new. envelope_ok (returned H func args kwargs w) env)"
    by (simp add: written_all_def)
next
  assume "send_script_result (recording H) rid (lg, w) = (r, (lgx, wx))"
  then have "put (recording H) rid (PNone, None) (lg, w) = (r, (lgx, wx))"
    by (simp add: send_script_result_def)
  then show "lgx = lg \<or> lgx = lg @ [(PNone, None)]" by (rule recording_put)
next
  assume h: "body (lg, w) = (Inl exc, (lgb, wb))
        \<and> queue_put H q (PNone, Some exc) wb = (Inr (), wc)"
  then have "put (recording H) (Some q) (PNone, Some exc) (lgb, wb)
               = (Inr (), (lgb @ [(PNone, Some exc)], wc))"
    by (simp add: recording_put_Inr_eq)
  with h show "capture_exc (recording H) (Some q) body (lg, w)
            = (Inl exc, (lgb @ [(PNone, Some exc)], wc))"
    by (simp add: capture_exc_def)
next
  assume h: "call_fn H func (py_or args (PTuple [])) (py_or kwargs (PDict [])) w
               = (Inr PNone, wa)
        \<and> queue_put H q (PNone, None) wa = (Inr (), wd)"
  then have p: "put (recording H) (Some q) (PNone, None) (lg, wa)
               = (Inr (), (lg @ [(PNone, None)], wd))"
    by (simp add: recording_put_Inr_eq)
  from h have c: "call_fn (recording H) func (py_or args (PTuple [])) (py_or kwargs (PDict []))
                    (lg, w) = (Inr PNone, (lg, wa))"
    by (simp add: lift_w_def)
  from c p show "call (recording H) func args kwargs (Some q) (lg, w)
            = (Inr (), (lg @ [(PNone, None)], wd))"
    by (simp only: call_def capture_exc_def prod.case sum.case)
next
  assume "queue_put H q (PNone, None) w = (Inr (), we)"
  then show "send_script_result (recording H) (Some q) (lg, w)
            = (Inr (), (lg @ [(PNone, None)], we))"
    by (simp add: send_script_result_def recording_put_Inr_eq)
qed

text \<open>
  On the reference host the task that raises writes one envelope, with the error field
  populated and the value field \<^verbatim>\<open>None\<close>; the callable that returns \<^verbatim>\<open>None\<close>
  makes \<^verbatim>\<open>_call\<close> write \<^verbatim>\<open>(None, None)\<close>, and so does
  \<^verbatim>\<open>_send_script_result\<close>.
\<close>

theorem envelope_one_populated_or_none_witness:
  "call_pickled (recording ref_host) ''B'' (Some 1) ([], world_ready)
     = (Inl (ValueError ''boom''), ([(PNone, Some (ValueError ''boom''))], world_boom))
   \<and> envelope_ok (task_returned ref_host ''B'' world_ready) (PNone, Some (ValueError ''boom''))
   \<and> exactly_one_populated (PNone, Some (ValueError ''boom''))
   \<and> call_fn ref_host (PObj ''tasks.nothing'') (py_or (PTuple []) (PTuple []))
        (py_or (PDict []) (PDict [])) world_ready = (Inr PNone, world_ready)
   \<and> queue_put ref_host 1 (PNone, None) world_ready
       = (Inr (), world_ready\<lparr>queues := [(1, [(PNone, None)])]\<rparr>)
   \<and> call (recording ref_host) (PObj ''tasks.nothing'') (PTuple []) (PDict []) (Some 1)
        ([], world_ready)
       = (Inr (), ([(PNone, None)], world_ready\<lparr>queues := [(1, [(PNone, None)])]\<rparr>))
   \<and> send_script_result (recording ref_host) (Some 1) ([], world_ready)
       = (Inr (), ([(PNone, None)], world_ready\<lparr>queues := [(1, [(PNone, None)])]\<rparr>))"
proof -
  let ?env = "(PNone, Some (ValueError ''boom''))"
  let ?wn = "world_ready\<lparr>queues := [(1, [(PNone, None)])]\<rparr>"
  have ev: "call_pickled (recording ref_host) ''B'' (Some 1) ([], world_ready)
     = (Inl (ValueError ''boom''), ([?env], world_boom))"
    by (simp add: call_pickled_def call_def capture_exc_def put_def lift_w_def record_put_def
      ref_defs py_or_def world_boom_def)
  have cn: "call_fn ref_host (PObj ''tasks.nothing'') (py_or (PTuple []) (PTuple []))
        (py_or (PDict []) (PDict [])) world_ready = (Inr PNone, world_ready)"
    by (simp add: ref_call_def py_or_def)
  have pn: "queue_put ref_host 1 (PNone, None) world_ready = (Inr (), ?wn)"
    by (simp add: ref_put_def world_ready_def)
  note inst = envelope_one_populated_or_none [where H = ref_host and pickled = "''B''"
      and rid = "Some 1" and lg = "[]" and w = world_ready and r = "Inl (ValueError ''boom'')"
      and lgx = "[?env]" and wx = world_boom and func = "PObj ''tasks.nothing''"
      and args = "PTuple []" and kwargs = "PDict []" and q = 1 and wa = world_ready
      and wd = ?wn and we = ?wn]
  from inst ev have "\<exists>new. [?env] = [] @ new
      \<and> (\<forall>env\<in>set new. envelope_ok (task_returned ref_host ''B'' world_ready) env)"
    by blast
  then have ok: "envelope_ok (task_returned ref_host ''B'' world_ready) ?env" by simp
  from inst cn pn
  have cl: "call (recording ref_host) (PObj ''tasks.nothing'') (PTuple []) (PDict []) (Some 1)
        ([], world_ready) = (Inr (), ([] @ [(PNone, None)], ?wn))"
    and ss: "send_script_result (recording ref_host) (Some 1) ([], world_ready)
       = (Inr (), ([] @ [(PNone, None)], ?wn))"
    by blast+
  have e1: "exactly_one_populated ?env"
    by (simp add: exactly_one_populated_def value_populated_def error_populated_def)
  from ev ok e1 cn pn cl ss show ?thesis by simp
qed

section \<open>The message and the string form of ExecutionFailed\<close>

lemma get_errdisplay_Exception:
  "get_errdisplay self = Inl e \<Longrightarrow> isinstance e ''Exception''"
  by (auto simp: get_errdisplay_def AttributeError_def isinstance_def split: option.splits)

text \<open>
  C9.  The message \<^verbatim>\<open>ExecutionFailed.__init__\<close> passes to its base class is the
  descriptor's formatted text when there is one; otherwise the type name, a colon and
  the message when both are there; otherwise the type name alone.  The string form
  \<^verbatim>\<open>__str__\<close> never raises, for any object: when reading the display text of the
  descriptor fails, it is the string form of the base class, which for an object built
  with the message \<open>t\<close> is \<open>t\<close>; when the display text \<open>d\<close> is there, it is \<open>t\<close>
  followed by the display text under the heading "Uncaught in the interpreter:".
\<close>

theorem ExecutionFailed_message_and_str:
  "(str_truthy (formatted xi)
      \<longrightarrow> ExecutionFailed_init xi = Inr (ExecutionFailed_new (formatted xi) xi))
   \<and> (\<not> str_truthy (formatted xi) \<and> exc_type xi = Some n \<and> exc_msg xi = Some m \<and> m \<noteq> []
      \<longrightarrow> ExecutionFailed_init xi = Inr (ExecutionFailed_new (Some (n @ '': '' @ m)) xi))
   \<and> (\<not> str_truthy (formatted xi) \<and> exc_type xi = Some n \<and> n \<noteq> []
        \<and> \<not> str_truthy (exc_msg xi)
      \<longrightarrow> ExecutionFailed_init xi = Inr (ExecutionFailed_new (Some n) xi))
   \<and> (\<exists>s. ExecutionFailed_str H self = Inr s)
   \<and> (get_errdisplay self = Inl e
      \<longrightarrow> ExecutionFailed_str H self = Inr (BaseException_str H self))
   \<and> BaseException_str H (ExecutionFailed_new (Some t) xi) = t
   \<and> (errdisplay xi = Some d
      \<longrightarrow> ExecutionFailed_str H (ExecutionFailed_new (Some t) xi)
          = Inr (textwrap_dedent H (str_strip H
                  (newline @ t @ newline @ newline @ ''Uncaught in the interpreter:''
                   @ newline @ newline @ d @ newline @ ''                ''))))"
proof (intro conjI impI)
  show "\<exists>s. ExecutionFailed_str H self = Inr s"
    using get_errdisplay_Exception [of self]
    by (cases "get_errdisplay self") (auto simp: ExecutionFailed_str_def)
next
  assume "get_errdisplay self = Inl e"
  then show "ExecutionFailed_str H self = Inr (BaseException_str H self)"
    using get_errdisplay_Exception [of self e] by (simp add: ExecutionFailed_str_def)
qed (auto simp: ExecutionFailed_init_def str_truthy_def BaseException_str_def
       ExecutionFailed_new_def opt_val_def ExecutionFailed_str_def get_errdisplay_def)

text \<open>
  The descriptor of \<^verbatim>\<open>ValueError("boom")\<close> on the reference host has the formatted
  text "ValueError: boom"; the descriptor \<open>info_plain\<close> has a type name and a message
  only, and no display text, so the string form is the message "KeyError: k".
\<close>

theorem ExecutionFailed_message_and_str_witness:
  "str_truthy (formatted (ref_snapshot (ValueError ''boom'')))
   \<and> ExecutionFailed_init (ref_snapshot (ValueError ''boom'')) = Inr boom_wrapper
   \<and> \<not> str_truthy (formatted info_plain)
   \<and> ExecutionFailed_init info_plain = Inr (ExecutionFailed_new (Some ''KeyError: k'') info_plain)
   \<and> get_errdisplay (ExecutionFailed_new (Some ''KeyError: k'') info_plain)
       = Inl (AttributeError ''errdisplay'')
   \<and> ExecutionFailed_str ref_host (ExecutionFailed_new (Some ''KeyError: k'') info_plain)
       = Inr ''KeyError: k''"
proof -
  have a: "str_truthy (formatted (ref_snapshot (ValueError ''boom'')))"
    by (simp add: ref_snapshot_def str_truthy_def ValueError_def)
  have b: "\<not> str_truthy (formatted info_plain)"
    "exc_type info_plain = Some ''KeyError''" "exc_msg info_plain = Some ''k''"
    by (simp_all add: info_plain_def str_truthy_def)
  have c: "get_errdisplay (ExecutionFailed_new (Some ''KeyError: k'') info_plain)
       = Inl (AttributeError ''errdisplay'')"
    by (simp add: get_errdisplay_def ExecutionFailed_new_def info_plain_def)
  have f: "formatted (ref_snapshot (ValueError ''boom'')) = Some ''ValueError: boom''"
    by (simp add: ref_snapshot_def ValueError_def ref_str_def)
  from ExecutionFailed_message_and_str [of "ref_snapshot (ValueError ''boom'')" "''x''" "''y''"
      ref_host "ExecutionFailed_new (Some ''KeyError: k'') info_plain"
      "AttributeError ''errdisplay''" "''KeyError: k''" "''d''"] a f
  have 1: "ExecutionFailed_init (ref_snapshot (ValueError ''boom'')) = Inr boom_wrapper"
    by (simp add: boom_wrapper_def)
  from ExecutionFailed_message_and_str [of info_plain "''KeyError''" "''k''"
      ref_host "ExecutionFailed_new (Some ''KeyError: k'') info_plain"
      "AttributeError ''errdisplay''" "''KeyError: k''" "''d''"] b c
  have 2: "ExecutionFailed_init info_plain
             = Inr (ExecutionFailed_new (Some ''KeyError: k'') info_plain)"
    and 3: "ExecutionFailed_str ref_host (ExecutionFailed_new (Some ''KeyError: k'') info_plain)
       = Inr ''KeyError: k''"
    by simp_all
  from a b c 1 2 3 show ?thesis by simp
qed


section \<open>The shared mapping\<close>

lemma host_sel_indep:
  "pickle_dumps (H\<lparr>interp_set_main_attrs := g\<rparr>) = pickle_dumps H"
  "pickle_loads (H\<lparr>interp_set_main_attrs := g\<rparr>) = pickle_loads H"
  "interp_create (H\<lparr>interp_set_main_attrs := g\<rparr>) = interp_create H"
  "interp_incref (H\<lparr>interp_set_main_attrs := g\<rparr>) = interp_incref H"
  "interp_decref (H\<lparr>interp_set_main_attrs := g\<rparr>) = interp_decref H"
  "interp_enter (H\<lparr>interp_set_main_attrs := g\<rparr>) = interp_enter H"
  "interp_leave (H\<lparr>interp_set_main_attrs := g\<rparr>) = interp_leave H"
  "interp_import (H\<lparr>interp_set_main_attrs := g\<rparr>) = interp_import H"
  "call_fn (H\<lparr>interp_set_main_attrs := g\<rparr>) = call_fn H"
  "exc_snapshot (H\<lparr>interp_set_main_attrs := g\<rparr>) = exc_snapshot H"
  "queue_create (H\<lparr>interp_set_main_attrs := g\<rparr>) = queue_create H"
  "queue_put (H\<lparr>interp_set_main_attrs := g\<rparr>) = queue_put H"
  "queue_get (H\<lparr>interp_set_main_attrs := g\<rparr>) = queue_get H"
  "queue_destroy (H\<lparr>interp_set_main_attrs := g\<rparr>) = queue_destroy H"
  by simp_all

lemma put_indep: "put (H\<lparr>interp_set_main_attrs := g\<rparr>) = put H"
  unfolding put_def [abs_def] host_sel_indep by (rule refl)

lemma get_indep: "get (H\<lparr>interp_set_main_attrs := g\<rparr>) = get H"
  unfolding get_def [abs_def] host_sel_indep by (rule refl)

lemma get_result_indep:
  "get_result (H\<lparr>interp_set_main_attrs := g\<rparr>) n rid w = get_result H n rid w"
proof (induction n arbitrary: w)
  case 0
  show ?case by simp
next
  case (Suc n)
  show ?case unfolding get_result.simps get_indep Suc by (rule refl)
qed

lemma capture_exc_indep: "capture_exc (H\<lparr>interp_set_main_attrs := g\<rparr>) = capture_exc H"
  unfolding capture_exc_def [abs_def] put_indep by (rule refl)

lemma call_indep: "call (H\<lparr>interp_set_main_attrs := g\<rparr>) = call H"
  unfolding call_def [abs_def] capture_exc_indep put_indep host_sel_indep by (rule refl)

lemma call_pickled_indep: "call_pickled (H\<lparr>interp_set_main_attrs := g\<rparr>) = call_pickled H"
  unfolding call_pickled_def [abs_def] capture_exc_indep call_indep host_sel_indep
  by (rule refl)

lemma exec_ctx_indep: "exec_ctx (H\<lparr>interp_set_main_attrs := g\<rparr>) = exec_ctx H"
  unfolding exec_ctx_def [abs_def] interp_exec_def [abs_def] run_script_def [abs_def]
    call_pickled_indep host_sel_indep
  by (rule refl)

lemma run_indep:
  "run (H\<lparr>interp_set_main_attrs := g\<rparr>) n self t w = run H n self t w"
  unfolding run_def exec_ctx_indep get_result_indep by (rule refl)

lemma finalize_indep: "finalize (H\<lparr>interp_set_main_attrs := g\<rparr>) = finalize H"
  unfolding finalize_def [abs_def] host_sel_indep by (rule refl)

lemma initialize_body_indep:
  assumes "shared self = None"
  shows "initialize_body (H\<lparr>interp_set_main_attrs := g\<rparr>) n st i self w
           = initialize_body H n st i self w"
proof -
  have s: "\<And>q. shared (self\<lparr>resultsid := Some q\<rparr>) = None"
    using assms by simp
  show ?thesis
    unfolding initialize_body_def Let_def s option.case exec_ctx_indep run_indep host_sel_indep
    by (rule refl)
qed

lemma initialize_indep:
  assumes "shared self = None"
  shows "initialize (H\<lparr>interp_set_main_attrs := g\<rparr>) n st self w = initialize H n st self w"
proof -
  have s: "\<And>i. shared (self\<lparr>interpid := Some i\<rparr>) = None"
    using assms by simp
  show ?thesis
    unfolding initialize_def initialize_body_indep [OF s] finalize_indep host_sel_indep
    by (rule refl)
qed

lemma initialize_body_store:
  assumes "shared self = Some b" and "store_get st1 b = store_get st2 b"
  shows "initialize_body H n st1 i self w = initialize_body H n st2 i self w"
proof -
  have s: "\<And>q. shared (self\<lparr>resultsid := Some q\<rparr>) = Some b"
    using assms by simp
  show ?thesis
    unfolding initialize_body_def Let_def s option.case assms(2) by (rule refl)
qed

lemma initialize_store:
  assumes "shared self = Some b" and "store_get st1 b = store_get st2 b"
  shows "initialize H n st1 self w = initialize H n st2 self w"
proof -
  have s: "\<And>i. shared (self\<lparr>interpid := Some i\<rparr>) = Some b"
    using assms by simp
  show ?thesis
    unfolding initialize_def initialize_body_store [OF s assms(2)] by (rule refl)
qed

text \<open>
  C10.  A shared mapping that is \<^verbatim>\<open>None\<close> or empty gives the same context as no
  mapping: the context stores \<^verbatim>\<open>None\<close>.  With \<^verbatim>\<open>None\<close> stored,
  \<open>initialize\<close> does not call the injection of bindings: its result is the same
  whatever that service is.  A non-empty mapping at address \<open>a\<close> is copied to a new
  address, which the context stores; the copy holds the items the mapping had, a later
  assignment \<open>d\<close> to the caller's mapping leaves the copy as it was, and
  \<open>initialize\<close> after that assignment does what it does without it.
\<close>

theorem shared_mapping_snapshot:
  "(sh = None \<or> (\<exists>a. sh = Some a \<and> store_get st a = [])
      \<longrightarrow> WorkerContext_init data sh st = WorkerContext_init data None st
          \<and> shared (fst (WorkerContext_init data sh st)) = None)
   \<and> (shared self = None
      \<longrightarrow> initialize (H\<lparr>interp_set_main_attrs := g\<rparr>) n st self w = initialize H n st self w)
   \<and> (store_get st a \<noteq> [] \<and> WorkerContext_init data (Some a) st = (selfc, stc)
      \<longrightarrow> shared selfc = Some (length st) \<and> length st \<noteq> a
          \<and> store_get stc (length st) = store_get st a
          \<and> store_get (store_set stc a d) (length st) = store_get st a
          \<and> initialize H n (store_set stc a d) selfc w = initialize H n stc selfc w)"
proof (intro conjI impI)
  assume "sh = None \<or> (\<exists>a. sh = Some a \<and> store_get st a = [])"
  then show "WorkerContext_init data sh st = WorkerContext_init data None st"
    and "shared (fst (WorkerContext_init data sh st)) = None"
    by (auto simp: WorkerContext_init_def)
next
  assume "shared self = None"
  then show "initialize (H\<lparr>interp_set_main_attrs := g\<rparr>) n st self w = initialize H n st self w"
    by (rule initialize_indep)
next
  assume h: "store_get st a \<noteq> [] \<and> WorkerContext_init data (Some a) st = (selfc, stc)"
  then have lt: "a < length st"
    by (auto simp: store_get_def split: if_splits)
  from h have s1: "selfc = \<lparr>initdata = data, shared = Some (length st), interpid = None,
                         resultsid = None\<rparr>"
    and stc: "stc = st @ [store_get st a]"
    by (auto simp: WorkerContext_init_def dict_copy_def)
  from s1 show sh1: "shared selfc = Some (length st)" by simp
  from lt show "length st \<noteq> a" by simp
  from stc show g1: "store_get stc (length st) = store_get st a"
    by (simp add: store_get_def)
  from stc lt show g2: "store_get (store_set stc a d) (length st) = store_get st a"
    by (simp add: store_get_def store_set_def nth_append)
  from g1 g2 have "store_get (store_set stc a d) (length st) = store_get stc (length st)"
    by simp
  from initialize_store [OF sh1 this]
  show "initialize H n (store_set stc a d) selfc w = initialize H n stc selfc w" .
qed

text \<open>
  On the reference host: an empty mapping gives the context of no mapping; a context
  with \<^verbatim>\<open>None\<close> stored initializes the same when the injection service would
  raise; the mapping \<^verbatim>\<open>{"X": 42}\<close> at address 0 is copied to address 1, and after
  the caller's mapping is changed to \<^verbatim>\<open>{"X": 7}\<close> the runtime still receives
  \<^verbatim>\<open>{"X": 42}\<close>.
\<close>

theorem shared_mapping_snapshot_witness:
  "WorkerContext_init None (Some 0) [[]] = WorkerContext_init None None [[]]
   \<and> shared (fst (WorkerContext_init None (Some 0) [[]])) = None
   \<and> shared ctx_unset = None
   \<and> initialize (ref_host\<lparr>interp_set_main_attrs :=
                    (\<lambda>i d b w. (Inl (TypeError ''not called''), w))\<rparr>) 1 store_x ctx_unset world0
       = initialize ref_host 1 store_x ctx_unset world0
   \<and> WorkerContext_init None (Some 0) store_x = (ctx_shared, store_x_copied)
   \<and> store_get (store_set store_x_copied 0 [(''X'', PInt 7)]) 1 = [(''X'', PInt 42)]
   \<and> initialize ref_host 1 (store_set store_x_copied 0 [(''X'', PInt 7)]) ctx_shared world0
       = Some (Inr (), ctx_shared\<lparr>interpid := Some 0, resultsid := Some 1\<rparr>,
               world_ready\<lparr>bindings := [(0, [(''X'', PInt 42)])]\<rparr>)"
proof -
  have e: "store_get [[]] 0 = []" by (simp add: store_get_def)
  have u: "shared ctx_unset = None" by (simp add: ctx_unset_def)
  have x: "store_get store_x 0 \<noteq> []" by (simp add: store_get_def store_x_def)
  have c: "WorkerContext_init None (Some 0) store_x = (ctx_shared, store_x_copied)"
    by (simp add: WorkerContext_init_def dict_copy_def store_get_def store_x_def
        store_x_copied_def ctx_shared_def)
  have i: "initialize ref_host 1 store_x_copied ctx_shared world0
       = Some (Inr (), ctx_shared\<lparr>interpid := Some 0, resultsid := Some 1\<rparr>,
               world_ready\<lparr>bindings := [(0, [(''X'', PInt 42)])]\<rparr>)"
    by (simp add: model_defs ref_defs ctx_shared_def store_x_copied_def dunder_name_def)
  from shared_mapping_snapshot [where sh = "Some 0" and st = "[[]]" and data = None
      and self = ctx_unset and H = ref_host and n = 1 and w = world0 and a = 0
      and g = "\<lambda>i d b w. (Inl (TypeError ''not called''), w)"
      and selfc = ctx_shared and stc = store_x_copied and d = "[(''X'', PInt 7)]"] e u
  have 1: "WorkerContext_init None (Some 0) [[]] = WorkerContext_init None None [[]]"
    and 2: "shared (fst (WorkerContext_init None (Some 0) [[]])) = None"
    by blast+
  from shared_mapping_snapshot [where sh = None and st = store_x and data = None
      and self = ctx_unset and H = ref_host and n = 1 and w = world0 and a = 0
      and g = "\<lambda>i d b w. (Inl (TypeError ''not called''), w)"
      and selfc = ctx_shared and stc = store_x_copied and d = "[(''X'', PInt 7)]"] u x c
  have 3: "initialize (ref_host\<lparr>interp_set_main_attrs :=
                    (\<lambda>i d b w. (Inl (TypeError ''not called''), w))\<rparr>) 1 store_x ctx_unset world0
       = initialize ref_host 1 store_x ctx_unset world0"
    and 4: "store_get (store_set store_x_copied 0 [(''X'', PInt 7)]) (length store_x)
              = store_get store_x 0"
    and 5: "initialize ref_host 1 (store_set store_x_copied 0 [(''X'', PInt 7)]) ctx_shared world0
              = initialize ref_host 1 store_x_copied ctx_shared world0"
    by blast+
  from 4 have 6: "store_get (store_set store_x_copied 0 [(''X'', PInt 7)]) 1 = [(''X'', PInt 42)]"
    by (simp add: store_x_def store_get_def)
  from 1 2 u 3 c 6 5 i show ?thesis by simp
qed

end
